theory Spec2Isabelle
  imports Complex_Main "HOL-Library.Word" "HOL-Library.Sublist"
begin

unbundle bit_operations_syntax

section \<open>Floating Sandbox: the Springs container, materials and JSON loading\<close>

text \<open>
  A shallow embedding of \<^verbatim>\<open>Physics::Springs\<close> (the header with the class and its inline
  member functions), of \<^verbatim>\<open>GameLib/Materials.h\<close> and of \<^verbatim>\<open>GameLib/Utils.cpp\<close>.

  Conventions of the embedding:
  \<^item> a member function that mutates the container takes the container and returns the
    new one;
  \<^item> a failed \<^verbatim>\<open>assert\<close> is the value \<open>Inl (AssertionFailure e)\<close>, where \<open>e\<close> is the
    text of the asserted expression as it stands in the source;
  \<^item> a buffer is a list, and an access outside of it (undefined behaviour in C++) is the
    value \<open>Inl OutOfBounds\<close>;
  \<^item> a \<^verbatim>\<open>float\<close> is modelled by the real number it denotes. The member functions modelled
    here only store and copy floats; the single arithmetic operation (a sum of a material
    mass and an offset, in the Points container) is written as the sum of the reals.
\<close>

subsection \<open>Basic types\<close>

type_synonym ElementIndex = nat

text \<open>
  \<^verbatim>\<open>ElementCount\<close> is declared outside the files at hand. The model carries the
  mathematical value of a counter; the only arithmetic on it is a decrement guarded by
  \<^verbatim>\<open>count > 0\<close>.
\<close>

type_synonym ElementCount = int

type_synonym float = real

type_synonym ConnectedComponentId = nat

datatype failure = AssertionFailure string | OutOfBounds

definition and_then :: "failure + 'a \<Rightarrow> ('a \<Rightarrow> failure + 'b) \<Rightarrow> failure + 'b" where
  "and_then r f = (case r of Inl e \<Rightarrow> Inl e | Inr x \<Rightarrow> f x)"

type_synonym 'a Buffer = "'a list"

definition Buffer_get :: "'a Buffer \<Rightarrow> nat \<Rightarrow> failure + 'a" where
  "Buffer_get b i = (if i < length b then Inr (b ! i) else Inl OutOfBounds)"

definition Buffer_set :: "'a Buffer \<Rightarrow> nat \<Rightarrow> 'a \<Rightarrow> failure + 'a Buffer" where
  "Buffer_set b i v = (if i < length b then Inr (b[i := v]) else Inl OutOfBounds)"

subsection \<open>The Springs container\<close>

record Endpoints =
  PointAIndex :: ElementIndex
  PointBIndex :: ElementIndex

record Coefficients =
  StiffnessCoefficient :: float
  DampingCoefficient :: float

text \<open>
  The three game parameters that the Springs header reads; \<^verbatim>\<open>GameParameters.h\<close> itself
  is not among the files.
\<close>

record GameParameters =
  NumMechanicalDynamicsIterations :: float
  StiffnessAdjustment :: float
  BombMass :: float

text \<open>
  \<^verbatim>\<open>enum class DestroyOptions\<close> (flags on an \<^verbatim>\<open>int\<close>) and
  \<^verbatim>\<open>enum class Characteristics : uint8_t\<close>.
\<close>

type_synonym DestroyOptions = "32 word"

definition DoNotFireBreakEvent :: DestroyOptions where "DoNotFireBreakEvent = 0"
definition FireBreakEvent :: DestroyOptions where "FireBreakEvent = 1"
definition DestroyOnlyConnectedTriangle :: DestroyOptions where "DestroyOnlyConnectedTriangle = 0"
definition DestroyAllTriangles :: DestroyOptions where "DestroyAllTriangles = 2"

type_synonym Characteristics = "8 word"

definition Characteristics_None :: Characteristics where "Characteristics_None = 0"
definition Hull :: Characteristics where "Hull = 1"
definition Rope :: Characteristics where "Rope = 2"

text \<open>
  The data members of the class: the element counts of the \<^verbatim>\<open>ElementContainer\<close> base,
  the per-spring buffers, and the two game parameter values the container is current
  with. A \<^verbatim>\<open>Material const *\<close> is an optional material identifier. The references to the
  parent world and to the game event handler and the two work-buffer allocators hold no
  state of a spring and are left out.
\<close>

record SpringsBuffers =
  mElementCount :: nat
  mBufferElementCount :: nat
  mIsDeletedBuffer :: "bool Buffer"
  mEndpointsBuffer :: "Endpoints Buffer"
  mSuperTrianglesCountBuffer :: "ElementCount Buffer"
  mStrengthBuffer :: "float Buffer"
  mStiffnessBuffer :: "float Buffer"
  mRestLengthBuffer :: "float Buffer"
  mCoefficientsBuffer :: "Coefficients Buffer"
  mCharacteristicsBuffer :: "Characteristics Buffer"
  mBaseMaterialBuffer :: "nat option Buffer"
  mWaterPermeabilityBuffer :: "float Buffer"
  mIsStressedBuffer :: "bool Buffer"
  mIsBombAttachedBuffer :: "bool Buffer"
  mCurrentNumMechanicalDynamicsIterations :: float
  mCurrentStiffnessAdjustment :: float

text \<open>
  \<^verbatim>\<open>DestroyHandler\<close> is a \<^verbatim>\<open>std::function<void(ElementIndex, bool, float,
  GameParameters const &)>\<close>. The handler acts on the world outside of the container
  (a state of type \<open>'w\<close>) and may read the container while it runs: the model passes it
  the buffers as they are at the time of the call.
\<close>

type_synonym 'w DestroyHandler =
  "SpringsBuffers \<Rightarrow> ElementIndex \<Rightarrow> bool \<Rightarrow> float \<Rightarrow> GameParameters \<Rightarrow> 'w \<Rightarrow> 'w"

record 'w Springs = SpringsBuffers +
  mDestroyHandler :: "'w DestroyHandler option"

definition IsDeleted :: "'a SpringsBuffers_scheme \<Rightarrow> ElementIndex \<Rightarrow> failure + bool" where
  "IsDeleted sp springElementIndex = Buffer_get (mIsDeletedBuffer sp) springElementIndex"

definition GetPointAIndex :: "'a SpringsBuffers_scheme \<Rightarrow> ElementIndex \<Rightarrow> failure + ElementIndex" where
  "GetPointAIndex sp springElementIndex =
     and_then (Buffer_get (mEndpointsBuffer sp) springElementIndex) (\<lambda>e. Inr (PointAIndex e))"

definition GetPointBIndex :: "'a SpringsBuffers_scheme \<Rightarrow> ElementIndex \<Rightarrow> failure + ElementIndex" where
  "GetPointBIndex sp springElementIndex =
     and_then (Buffer_get (mEndpointsBuffer sp) springElementIndex) (\<lambda>e. Inr (PointBIndex e))"

definition GetSuperTrianglesCount :: "'a SpringsBuffers_scheme \<Rightarrow> ElementIndex \<Rightarrow> failure + ElementCount" where
  "GetSuperTrianglesCount sp springElementIndex =
     Buffer_get (mSuperTrianglesCountBuffer sp) springElementIndex"

definition RemoveOneSuperTriangle ::
  "ElementIndex \<Rightarrow> 'a SpringsBuffers_scheme \<Rightarrow> failure + 'a SpringsBuffers_scheme" where
  "RemoveOneSuperTriangle springElementIndex sp =
     and_then (Buffer_get (mSuperTrianglesCountBuffer sp) springElementIndex) (\<lambda>c.
       if \<not> c > 0
       then Inl (AssertionFailure ''mSuperTrianglesCountBuffer[springElementIndex] > 0'')
       else and_then (Buffer_set (mSuperTrianglesCountBuffer sp) springElementIndex (c - 1))
              (\<lambda>b. Inr (sp\<lparr>mSuperTrianglesCountBuffer := b\<rparr>)))"

definition GetStiffness :: "'a SpringsBuffers_scheme \<Rightarrow> ElementIndex \<Rightarrow> failure + float" where
  "GetStiffness sp springElementIndex = Buffer_get (mStiffnessBuffer sp) springElementIndex"

definition GetStiffnessCoefficient :: "'a SpringsBuffers_scheme \<Rightarrow> ElementIndex \<Rightarrow> failure + float" where
  "GetStiffnessCoefficient sp springElementIndex =
     and_then (Buffer_get (mCoefficientsBuffer sp) springElementIndex)
       (\<lambda>c. Inr (StiffnessCoefficient c))"

definition GetDampingCoefficient :: "'a SpringsBuffers_scheme \<Rightarrow> ElementIndex \<Rightarrow> failure + float" where
  "GetDampingCoefficient sp springElementIndex =
     and_then (Buffer_get (mCoefficientsBuffer sp) springElementIndex)
       (\<lambda>c. Inr (DampingCoefficient c))"

definition IsBombAttached :: "'a SpringsBuffers_scheme \<Rightarrow> ElementIndex \<Rightarrow> failure + bool" where
  "IsBombAttached sp springElementIndex = Buffer_get (mIsBombAttachedBuffer sp) springElementIndex"

definition IsRope :: "'a SpringsBuffers_scheme \<Rightarrow> ElementIndex \<Rightarrow> failure + bool" where
  "IsRope sp springElementIndex =
     (if \<not> springElementIndex < mElementCount sp
      then Inl (AssertionFailure ''springElementIndex < mElementCount'')
      else and_then (Buffer_get (mCharacteristicsBuffer sp) springElementIndex)
             (\<lambda>c. Inr (\<not> \<not> (c AND Rope \<noteq> 0))))"

definition GetOtherEndpointIndex ::
  "'a SpringsBuffers_scheme \<Rightarrow> ElementIndex \<Rightarrow> ElementIndex \<Rightarrow> failure + ElementIndex" where
  "GetOtherEndpointIndex sp springElementIndex pointIndex =
     and_then (Buffer_get (mEndpointsBuffer sp) springElementIndex) (\<lambda>e.
       let otherEndpointIndex = PointBIndex e in
       if otherEndpointIndex = pointIndex then Inr (PointAIndex e) else Inr otherEndpointIndex)"

text \<open>
  A \<^verbatim>\<open>std::function\<close> may be empty: the argument of \<^verbatim>\<open>RegisterDestroyHandler\<close>, like
  the member it is moved into, is an optional handler, \<open>None\<close> for the empty one.
\<close>

definition RegisterDestroyHandler ::
  "'w DestroyHandler option \<Rightarrow> ('w, 'a) Springs_scheme \<Rightarrow> failure + ('w, 'a) Springs_scheme" where
  "RegisterDestroyHandler destroyHandler sp =
     (if \<not> (mDestroyHandler sp = None)
      then Inl (AssertionFailure ''!mDestroyHandler'')
      else Inr (sp\<lparr>mDestroyHandler := destroyHandler\<rparr>))"

subsection \<open>The Points container\<close>

text \<open>
  Modelled from the spec: the Points container, whose header is absent. Of a point the
  spec lists, among others, a mass "derived from base material mass plus any
  attached-object offset" and a connected-component id. The model keeps, per point, the
  mass of the base material, the current mass and the connected-component id.
\<close>

record Points =
  mMaterialMassBuffer :: "float Buffer"
  mMassBuffer :: "float Buffer"
  mConnectedComponentIdBuffer :: "ConnectedComponentId Buffer"

definition GetMass :: "Points \<Rightarrow> ElementIndex \<Rightarrow> failure + float" where
  "GetMass points pointElementIndex = Buffer_get (mMassBuffer points) pointElementIndex"

definition GetMaterialMass :: "Points \<Rightarrow> ElementIndex \<Rightarrow> failure + float" where
  "GetMaterialMass points pointElementIndex =
     Buffer_get (mMaterialMassBuffer points) pointElementIndex"

definition Points_GetConnectedComponentId ::
  "Points \<Rightarrow> ElementIndex \<Rightarrow> failure + ConnectedComponentId" where
  "Points_GetConnectedComponentId points pointElementIndex =
     Buffer_get (mConnectedComponentIdBuffer points) pointElementIndex"

subsection \<open>Stiffness coefficient and point masses\<close>

text \<open>
  \<^verbatim>\<open>CalculateStiffnessCoefficient\<close> is a static member function that is declared in the
  header and defined elsewhere: it returns a \<^verbatim>\<open>float\<close> computed from its six arguments
  and, being static and taking the points by reference to const, changes neither the
  springs nor the points. The model takes it as a parameter of this type.
\<close>

type_synonym StiffnessCalculation =
  "ElementIndex \<Rightarrow> ElementIndex \<Rightarrow> float \<Rightarrow> float \<Rightarrow> float \<Rightarrow> Points \<Rightarrow> float"

text \<open>
  \<^verbatim>\<open>OnPointMassUpdated\<close> calls \<^verbatim>\<open>CalculateStiffnessCoefficient\<close> as an expression
  statement: the value the call returns is not stored anywhere.
\<close>

definition OnPointMassUpdated ::
  "StiffnessCalculation \<Rightarrow> ElementIndex \<Rightarrow> Points \<Rightarrow> 'a SpringsBuffers_scheme
     \<Rightarrow> failure + 'a SpringsBuffers_scheme" where
  "OnPointMassUpdated CalculateStiffnessCoefficient springElementIndex points sp =
     (if \<not> springElementIndex < mElementCount sp
      then Inl (AssertionFailure ''springElementIndex < mElementCount'')
      else and_then (Buffer_get (mEndpointsBuffer sp) springElementIndex) (\<lambda>e.
           and_then (Buffer_get (mStiffnessBuffer sp) springElementIndex) (\<lambda>stiffness.
             let discarded =
               CalculateStiffnessCoefficient (PointAIndex e) (PointBIndex e) stiffness
                 (mCurrentStiffnessAdjustment sp) (mCurrentNumMechanicalDynamicsIterations sp)
                 points
             in Inr sp)))"

text \<open>
  Modelled from the spec: \<^verbatim>\<open>Points::SetMassToMaterialOffset\<close>, which the header calls and
  which is defined elsewhere. The spec: the mass of a point is "derived from base material
  mass plus any attached-object offset", and a change of the offset "must recompute cached
  spring coefficients for every spring incident on that point". The model sets the mass of
  the point to its material mass plus the offset and then calls \<^verbatim>\<open>OnPointMassUpdated\<close>,
  with the updated points, for every live spring that has the point as an endpoint.
\<close>

definition IncidentSprings :: "'a SpringsBuffers_scheme \<Rightarrow> ElementIndex \<Rightarrow> ElementIndex list" where
  "IncidentSprings sp pointElementIndex =
     filter (\<lambda>s. s < length (mIsDeletedBuffer sp) \<and> s < length (mEndpointsBuffer sp)
                 \<and> mIsDeletedBuffer sp ! s = False
                 \<and> (PointAIndex (mEndpointsBuffer sp ! s) = pointElementIndex
                    \<or> PointBIndex (mEndpointsBuffer sp ! s) = pointElementIndex))
       [0..<mElementCount sp]"

fun NotifySprings ::
  "StiffnessCalculation \<Rightarrow> ElementIndex list \<Rightarrow> Points \<Rightarrow> 'a SpringsBuffers_scheme
     \<Rightarrow> failure + 'a SpringsBuffers_scheme" where
  "NotifySprings calc [] points sp = Inr sp"
| "NotifySprings calc (s # ss) points sp =
     and_then (OnPointMassUpdated calc s points sp) (NotifySprings calc ss points)"

definition SetMassToMaterialOffset ::
  "StiffnessCalculation \<Rightarrow> ElementIndex \<Rightarrow> float \<Rightarrow> 'a SpringsBuffers_scheme \<Rightarrow> Points
     \<Rightarrow> failure + (Points \<times> 'a SpringsBuffers_scheme)" where
  "SetMassToMaterialOffset calc pointElementIndex offset sp points =
     and_then (Buffer_get (mMaterialMassBuffer points) pointElementIndex) (\<lambda>materialMass.
     and_then (Buffer_set (mMassBuffer points) pointElementIndex (materialMass + offset)) (\<lambda>b.
       let points' = points\<lparr>mMassBuffer := b\<rparr> in
       and_then (NotifySprings calc (IncidentSprings sp pointElementIndex) points' sp)
         (\<lambda>sp'. Inr (points', sp'))))"

subsection \<open>Bombs\<close>

definition AttachBomb ::
  "StiffnessCalculation \<Rightarrow> ElementIndex \<Rightarrow> Points \<Rightarrow> GameParameters \<Rightarrow> 'a SpringsBuffers_scheme
     \<Rightarrow> failure + ('a SpringsBuffers_scheme \<times> Points)" where
  "AttachBomb calc springElementIndex points gameParameters sp =
     and_then (Buffer_get (mIsBombAttachedBuffer sp) springElementIndex) (\<lambda>attached.
       if \<not> (False = attached)
       then Inl (AssertionFailure ''false == mIsBombAttachedBuffer[springElementIndex]'')
       else
         and_then (Buffer_set (mIsBombAttachedBuffer sp) springElementIndex True) (\<lambda>flags.
         let sp1 = sp\<lparr>mIsBombAttachedBuffer := flags\<rparr> in
         and_then (Buffer_get (mEndpointsBuffer sp1) springElementIndex) (\<lambda>eA.
         and_then (SetMassToMaterialOffset calc (PointAIndex eA) (BombMass gameParameters)
                     sp1 points) (\<lambda>(points1, sp2).
         and_then (Buffer_get (mEndpointsBuffer sp2) springElementIndex) (\<lambda>eB.
         and_then (SetMassToMaterialOffset calc (PointBIndex eB) (BombMass gameParameters)
                     sp2 points1) (\<lambda>(points2, sp3).
           Inr (sp3, points2)))))))"

definition DetachBomb ::
  "StiffnessCalculation \<Rightarrow> ElementIndex \<Rightarrow> Points \<Rightarrow> 'a SpringsBuffers_scheme
     \<Rightarrow> failure + ('a SpringsBuffers_scheme \<times> Points)" where
  "DetachBomb calc springElementIndex points sp =
     and_then (Buffer_get (mIsBombAttachedBuffer sp) springElementIndex) (\<lambda>attached.
       if \<not> (True = attached)
       then Inl (AssertionFailure ''true == mIsBombAttachedBuffer[springElementIndex]'')
       else
         and_then (Buffer_set (mIsBombAttachedBuffer sp) springElementIndex False) (\<lambda>flags.
         let sp1 = sp\<lparr>mIsBombAttachedBuffer := flags\<rparr> in
         and_then (Buffer_get (mEndpointsBuffer sp1) springElementIndex) (\<lambda>eA.
         and_then (SetMassToMaterialOffset calc (PointAIndex eA) 0 sp1 points)
           (\<lambda>(points1, sp2).
         and_then (Buffer_get (mEndpointsBuffer sp2) springElementIndex) (\<lambda>eB.
         and_then (SetMassToMaterialOffset calc (PointBIndex eB) 0 sp2 points1)
           (\<lambda>(points2, sp3).
           Inr (sp3, points2)))))))"

subsection \<open>Connected components\<close>

definition GetConnectedComponentId ::
  "'a SpringsBuffers_scheme \<Rightarrow> ElementIndex \<Rightarrow> Points \<Rightarrow> failure + ConnectedComponentId" where
  "GetConnectedComponentId sp springElementIndex points =
     and_then (GetPointAIndex sp springElementIndex) (\<lambda>a.
     and_then (Points_GetConnectedComponentId points a) (\<lambda>ca.
     and_then (GetPointBIndex sp springElementIndex) (\<lambda>b.
     and_then (Points_GetConnectedComponentId points b) (\<lambda>cb.
       if \<not> (ca = cb)
       then Inl (AssertionFailure
         ''points.GetConnectedComponentId(GetPointAIndex(springElementIndex)) == points.GetConnectedComponentId(GetPointBIndex(springElementIndex))'')
       else and_then (GetPointAIndex sp springElementIndex)
              (\<lambda>a'. Points_GetConnectedComponentId points a')))))"

text \<open>
  Modelled from the spec: the connected-component analysis, which is outside the files.
  The spec: "relabel all points via graph traversal (breadth-first or union-find over the
  spring adjacency) so that two points share a component id if and only if a path of live
  springs connects them." The model is the union-find in its simplest form: every point
  starts with its own index as id, and every live spring, in index order, renames the id
  of its endpoint B into the id of its endpoint A wherever that id stands. A live spring
  with an endpoint that is no point is an access out of bounds.
\<close>

definition Relabel ::
  "ConnectedComponentId \<Rightarrow> ConnectedComponentId \<Rightarrow> ConnectedComponentId Buffer
     \<Rightarrow> ConnectedComponentId Buffer" where
  "Relabel old new ids = map (\<lambda>c. if c = old then new else c) ids"

fun JoinSprings ::
  "(bool \<times> Endpoints) list \<Rightarrow> ConnectedComponentId Buffer
     \<Rightarrow> failure + ConnectedComponentId Buffer" where
  "JoinSprings [] ids = Inr ids"
| "JoinSprings ((deleted, e) # rest) ids =
     (if deleted then JoinSprings rest ids
      else and_then (Buffer_get ids (PointAIndex e)) (\<lambda>ca.
           and_then (Buffer_get ids (PointBIndex e)) (\<lambda>cb.
             JoinSprings rest (Relabel cb ca ids))))"

definition DetectConnectedComponents ::
  "'a SpringsBuffers_scheme \<Rightarrow> Points \<Rightarrow> failure + Points" where
  "DetectConnectedComponents sp points =
     and_then
       (JoinSprings
          (take (mElementCount sp) (zip (mIsDeletedBuffer sp) (mEndpointsBuffer sp)))
          [0..<length (mConnectedComponentIdBuffer points)])
       (\<lambda>ids. Inr (points\<lparr>mConnectedComponentIdBuffer := ids\<rparr>))"

text \<open>
  Two points are connected when a path of live springs leads from one to the other: the
  least equivalence relation that holds between the endpoints of every live spring.
\<close>

inductive Connected :: "(bool \<times> Endpoints) list \<Rightarrow> ElementIndex \<Rightarrow> ElementIndex \<Rightarrow> bool"
  for springs :: "(bool \<times> Endpoints) list" where
  same: "Connected springs p p"
| spring: "(False, e) \<in> set springs \<Longrightarrow> Connected springs (PointAIndex e) (PointBIndex e)"
| reverse: "Connected springs p q \<Longrightarrow> Connected springs q p"
| path: "Connected springs p q \<Longrightarrow> Connected springs q r \<Longrightarrow> Connected springs p r"

subsection \<open>Destroying a spring\<close>

text \<open>
  Modelled from the spec: \<^verbatim>\<open>Springs::Destroy\<close>, which the header declares and which is
  defined elsewhere. The spec: it "marks the spring deleted; if \<^verbatim>\<open>FireBreakEvent\<close> is set,
  invokes the registered destroy handler before marking deleted", and "operating on a
  deleted element" is an invariant violation "checked via assertions". The handler is told
  "the spring's index, whether triangles should also be destroyed, current simulation time,
  and current parameters". With no handler registered there is nothing to invoke.
\<close>

definition Destroy ::
  "ElementIndex \<Rightarrow> DestroyOptions \<Rightarrow> float \<Rightarrow> GameParameters \<Rightarrow> Points
     \<Rightarrow> ('w, 'a) Springs_scheme \<times> 'w \<Rightarrow> failure + (('w, 'a) Springs_scheme \<times> 'w)" where
  "Destroy springElementIndex destroyOptions currentSimulationTime gameParameters points state =
     (case state of (sp, world) \<Rightarrow>
       and_then (IsDeleted sp springElementIndex) (\<lambda>deleted.
         if \<not> \<not> deleted
         then Inl (AssertionFailure ''!IsDeleted(springElementIndex)'')
         else
           let world' =
             (if destroyOptions AND FireBreakEvent \<noteq> 0
              then (case mDestroyHandler sp of
                      None \<Rightarrow> world
                    | Some handler \<Rightarrow>
                        handler (SpringsBuffers.truncate sp) springElementIndex
                          (destroyOptions AND DestroyAllTriangles \<noteq> 0)
                          currentSimulationTime gameParameters world)
              else world)
           in and_then (Buffer_set (mIsDeletedBuffer sp) springElementIndex True)
                (\<lambda>b. Inr (sp\<lparr>mIsDeletedBuffer := b\<rparr>, world'))))"

subsection \<open>Materials\<close>

text \<open>\<^verbatim>\<open>vec4f\<close> comes from a header outside the files: four floats.\<close>

type_synonym vec4f = "float \<times> float \<times> float \<times> float"

datatype MaterialSoundType = Cable | Glass | Metal | Wood

record StructuralMaterial =
  Name :: string
  Strength :: float
  Mass :: float
  Stiffness :: float
  RenderColor :: vec4f
  IsHull :: bool
  MaterialSound :: MaterialSoundType

definition StructuralMaterial_ctor ::
  "string \<Rightarrow> float \<Rightarrow> float \<Rightarrow> float \<Rightarrow> vec4f \<Rightarrow> bool \<Rightarrow> MaterialSoundType
     \<Rightarrow> StructuralMaterial" where
  "StructuralMaterial_ctor name strength mass stiffness renderColor isHull materialSound =
     \<lparr>Name = name, Strength = strength, Mass = mass, Stiffness = stiffness,
      RenderColor = renderColor, IsHull = isHull, MaterialSound = materialSound\<rparr>"

datatype ElectricalElementType = Lamp | Cable | Generator

record ElectricalMaterial =
  Name :: string
  ElectricalType :: ElectricalElementType
  IsSelfPowered :: bool

definition ElectricalMaterial_ctor ::
  "string \<Rightarrow> ElectricalElementType \<Rightarrow> bool \<Rightarrow> ElectricalMaterial" where
  "ElectricalMaterial_ctor name electricalType isSelfPowered =
     \<lparr>Name = name, ElectricalType = electricalType, IsSelfPowered = isSelfPowered\<rparr>"

subsection \<open>Reading a JSON file\<close>

text \<open>
  The file system is a partial map from file names to contents: a name outside its
  domain is a file that cannot be opened. \<^verbatim>\<open>picojson::parse\<close> (a library outside the
  repository) is a parameter: from the text it gives the value it has parsed and an error
  string, which is empty when the text was parsed. Each function returns, beside its
  result, the list of the calls it has made to the file system and to the parser, in
  order.
\<close>

datatype GameException = GameException string

datatype io_call = OpenFile string | PicojsonParse string

type_synonym FileSystem = "string \<Rightarrow> string option"

definition GetTextFileContents ::
  "FileSystem \<Rightarrow> string \<Rightarrow> io_call list \<times> (GameException + string)" where
  "GetTextFileContents fs filename =
     ([OpenFile filename],
      case fs filename of
        None \<Rightarrow> Inl (GameException (''Cannot open file '' @ [CHR 0x22] @ filename @ [CHR 0x22]))
      | Some contents \<Rightarrow> Inr contents)"

definition ParseJSONFile ::
  "(string \<Rightarrow> 'json \<times> string) \<Rightarrow> FileSystem \<Rightarrow> string
     \<Rightarrow> io_call list \<times> (GameException + 'json)" where
  "ParseJSONFile picojson_parse fs filename =
     (case GetTextFileContents fs filename of
        (calls, Inl e) \<Rightarrow> (calls, Inl e)
      | (calls, Inr fileContents) \<Rightarrow>
          (case picojson_parse fileContents of (jsonContent, parseError) \<Rightarrow>
            (calls @ [PicojsonParse fileContents],
             if \<not> (parseError = [])
             then Inl (GameException
                    (''Error parsing JSON file '' @ [CHR 0x22] @ filename @ [CHR 0x22]
                       @ '': '' @ parseError))
             else Inr jsonContent)))"

subsection \<open>Buffer sizes\<close>

text \<open>
  The buffers of a container are allocated once, all of one size, for at least as many
  elements as the container holds. The two mass buffers of the points are equally long.
\<close>

definition SpringsSized :: "'a SpringsBuffers_scheme \<Rightarrow> bool" where
  "SpringsSized sp \<longleftrightarrow>
     mElementCount sp \<le> mBufferElementCount sp
     \<and> length (mIsDeletedBuffer sp) = mBufferElementCount sp
     \<and> length (mEndpointsBuffer sp) = mBufferElementCount sp
     \<and> length (mSuperTrianglesCountBuffer sp) = mBufferElementCount sp
     \<and> length (mStrengthBuffer sp) = mBufferElementCount sp
     \<and> length (mStiffnessBuffer sp) = mBufferElementCount sp
     \<and> length (mRestLengthBuffer sp) = mBufferElementCount sp
     \<and> length (mCoefficientsBuffer sp) = mBufferElementCount sp
     \<and> length (mCharacteristicsBuffer sp) = mBufferElementCount sp
     \<and> length (mBaseMaterialBuffer sp) = mBufferElementCount sp
     \<and> length (mWaterPermeabilityBuffer sp) = mBufferElementCount sp
     \<and> length (mIsStressedBuffer sp) = mBufferElementCount sp
     \<and> length (mIsBombAttachedBuffer sp) = mBufferElementCount sp"

definition PointsSized :: "Points \<Rightarrow> bool" where
  "PointsSized points \<longleftrightarrow>
     length (mMaterialMassBuffer points) = length (mMassBuffer points)
     \<and> length (mConnectedComponentIdBuffer points) = length (mMassBuffer points)"

subsection \<open>Example states\<close>

text \<open>
  A ship of three points in a row, each of material mass 1, joined by two springs:
  spring 0 between the points 0 and 1, spring 1 between the points 1 and 2. Spring 0 is an
  edge of two triangles, spring 1 of none. The stiffness coefficients in the buffer are
  those that \<open>example_calculation\<close> below gives for these masses.
\<close>

definition example_springs :: SpringsBuffers where
  "example_springs =
     \<lparr>mElementCount = 2, mBufferElementCount = 2,
      mIsDeletedBuffer = [False, False],
      mEndpointsBuffer = [\<lparr>PointAIndex = 0, PointBIndex = 1\<rparr>, \<lparr>PointAIndex = 1, PointBIndex = 2\<rparr>],
      mSuperTrianglesCountBuffer = [2, 0],
      mStrengthBuffer = [1, 1],
      mStiffnessBuffer = [1, 1],
      mRestLengthBuffer = [1, 1],
      mCoefficientsBuffer =
        [\<lparr>StiffnessCoefficient = 60, DampingCoefficient = 1\<rparr>,
         \<lparr>StiffnessCoefficient = 60, DampingCoefficient = 1\<rparr>],
      mCharacteristicsBuffer = [Hull, Rope],
      mBaseMaterialBuffer = [Some 0, Some 0],
      mWaterPermeabilityBuffer = [0, 1],
      mIsStressedBuffer = [False, False],
      mIsBombAttachedBuffer = [False, False],
      mCurrentNumMechanicalDynamicsIterations = 30,
      mCurrentStiffnessAdjustment = 1\<rparr>"

definition example_points :: Points where
  "example_points =
     \<lparr>mMaterialMassBuffer = [1, 1, 1],
      mMassBuffer = [1, 1, 1],
      mConnectedComponentIdBuffer = [0, 1, 2]\<rparr>"

definition example_parameters :: GameParameters where
  "example_parameters =
     \<lparr>NumMechanicalDynamicsIterations = 30, StiffnessAdjustment = 1, BombMass = 5\<rparr>"

text \<open>
  A stand-in for the stiffness formula in the examples: the sum of the masses of the two
  endpoints, scaled by the three other arguments.
\<close>

definition example_calculation :: StiffnessCalculation where
  "example_calculation pointAIndex pointBIndex springStiffness stiffnessAdjustment
       numMechanicalDynamicsIterations points =
     springStiffness * stiffnessAdjustment * numMechanicalDynamicsIterations
       * (mMassBuffer points ! pointAIndex + mMassBuffer points ! pointBIndex)"

text \<open>
  A destroy handler that keeps a log: of every call, the index it is given, the flag for
  the triangles, and what \<^verbatim>\<open>IsDeleted\<close> returns for that index while the handler runs.
\<close>

definition logging_handler :: "(ElementIndex \<times> bool \<times> (failure + bool)) list DestroyHandler" where
  "logging_handler buffers springElementIndex destroyTriangles currentSimulationTime
       gameParameters seen =
     seen @ [(springElementIndex, destroyTriangles, IsDeleted buffers springElementIndex)]"

definition example_unregistered :: "(ElementIndex \<times> bool \<times> (failure + bool)) list Springs" where
  "example_unregistered = SpringsBuffers.extend example_springs (Springs.fields None)"

definition example_container :: "(ElementIndex \<times> bool \<times> (failure + bool)) list Springs" where
  "example_container =
     SpringsBuffers.extend example_springs (Springs.fields (Some logging_handler))"

definition example_files :: FileSystem where
  "example_files =
     (\<lambda>name. if name = ''a.json'' then Some ''{}''
              else if name = ''b.json'' then Some ''{''
              else None)"

text \<open>A stand-in for the parser: it accepts the text \<open>{}\<close> only.\<close>

definition example_parse :: "string \<Rightarrow> nat \<times> string" where
  "example_parse text = (if text = ''{}'' then (1, []) else (0, ''syntax error''))"

section \<open>Basic facts\<close>

lemma and_then_Inr [simp]: "and_then (Inr x) f = f x"
  by (simp add: and_then_def)

lemma and_then_Inl [simp]: "and_then (Inl e) f = Inl e"
  by (simp add: and_then_def)

lemma Buffer_get_Inr: "Buffer_get b i = Inr x \<longleftrightarrow> i < length b \<and> b ! i = x"
  by (auto simp: Buffer_get_def)

lemma Buffer_get_in_range: "i < length b \<Longrightarrow> Buffer_get b i = Inr (b ! i)"
  by (simp add: Buffer_get_def)

lemma Buffer_set_in_range: "i < length b \<Longrightarrow> Buffer_set b i v = Inr (b[i := v])"
  by (simp add: Buffer_set_def)

section \<open>Super triangles count\<close>

text \<open>
  C9. For a spring whose super-triangle count \<open>c\<close> is positive,
  \<^verbatim>\<open>RemoveOneSuperTriangle\<close> returns the container with that count set to \<open>c - 1\<close>
  (which is not negative) and with no other change: every other field is the same, and
  so is the count of every other spring. With a count of zero (any count that is not
  positive) the assertion fails.
\<close>

theorem RemoveOneSuperTriangle_decrements:
  assumes "GetSuperTrianglesCount sp s = Inr c"
  shows "(0 < c \<longrightarrow>
            RemoveOneSuperTriangle s sp =
              Inr (sp\<lparr>mSuperTrianglesCountBuffer := (mSuperTrianglesCountBuffer sp)[s := c - 1]\<rparr>)
          \<and> (\<exists>sp'. RemoveOneSuperTriangle s sp = Inr sp'
                \<and> GetSuperTrianglesCount sp' s = Inr (c - 1) \<and> 0 \<le> c - 1
                \<and> (\<forall>t. t \<noteq> s \<longrightarrow> GetSuperTrianglesCount sp' t = GetSuperTrianglesCount sp t)))
       \<and> (c \<le> 0 \<longrightarrow>
            RemoveOneSuperTriangle s sp =
              Inl (AssertionFailure ''mSuperTrianglesCountBuffer[springElementIndex] > 0''))"
proof -
  from assms have len: "s < length (mSuperTrianglesCountBuffer sp)"
    and val: "mSuperTrianglesCountBuffer sp ! s = c"
    by (simp_all add: GetSuperTrianglesCount_def Buffer_get_Inr)
  have get: "Buffer_get (mSuperTrianglesCountBuffer sp) s = Inr c"
    using len val by (simp add: Buffer_get_def)
  have zero: "RemoveOneSuperTriangle s sp =
      Inl (AssertionFailure ''mSuperTrianglesCountBuffer[springElementIndex] > 0'')" if "c \<le> 0"
    using that by (simp add: RemoveOneSuperTriangle_def get)
  have pos: "RemoveOneSuperTriangle s sp =
      Inr (sp\<lparr>mSuperTrianglesCountBuffer := (mSuperTrianglesCountBuffer sp)[s := c - 1]\<rparr>)"
    if "0 < c"
    using that len by (simp add: RemoveOneSuperTriangle_def get Buffer_set_def)
  have frame: "GetSuperTrianglesCount
        (sp\<lparr>mSuperTrianglesCountBuffer := (mSuperTrianglesCountBuffer sp)[s := c - 1]\<rparr>) t
      = GetSuperTrianglesCount sp t" if "t \<noteq> s" for t
    using that by (simp add: GetSuperTrianglesCount_def Buffer_get_def)
  have here: "GetSuperTrianglesCount
        (sp\<lparr>mSuperTrianglesCountBuffer := (mSuperTrianglesCountBuffer sp)[s := c - 1]\<rparr>) s
      = Inr (c - 1)"
    using len by (simp add: GetSuperTrianglesCount_def Buffer_get_def)
  show ?thesis
    using zero pos frame here by auto
qed

text \<open>
  The theorem at the two springs of the example: spring 0 has two super triangles and
  loses one; spring 1 has none, and the assertion fails.
\<close>

theorem RemoveOneSuperTriangle_decrements_witness:
  "GetSuperTrianglesCount example_springs 0 = Inr 2
   \<and> GetSuperTrianglesCount example_springs 1 = Inr 0
   \<and> (\<exists>sp'. RemoveOneSuperTriangle 0 example_springs = Inr sp'
         \<and> GetSuperTrianglesCount sp' 0 = Inr 1 \<and> GetSuperTrianglesCount sp' 1 = Inr 0)
   \<and> RemoveOneSuperTriangle 1 example_springs =
       Inl (AssertionFailure ''mSuperTrianglesCountBuffer[springElementIndex] > 0'')"
proof -
  have h0: "GetSuperTrianglesCount example_springs 0 = Inr 2"
    by (simp add: GetSuperTrianglesCount_def Buffer_get_def example_springs_def)
  have h1: "GetSuperTrianglesCount example_springs 1 = Inr 0"
    by (simp add: GetSuperTrianglesCount_def Buffer_get_def example_springs_def)
  from RemoveOneSuperTriangle_decrements [OF h0] RemoveOneSuperTriangle_decrements [OF h1] h0 h1
  show ?thesis by auto
qed

section \<open>Point mass updates\<close>

text \<open>
  What \<^verbatim>\<open>OnPointMassUpdated\<close> returns: the container it was given, whenever the index
  is one of a spring.
\<close>

lemma OnPointMassUpdated_result:
  "OnPointMassUpdated calc s points sp =
     (if \<not> s < mElementCount sp then Inl (AssertionFailure ''springElementIndex < mElementCount'')
      else if s < length (mEndpointsBuffer sp) \<and> s < length (mStiffnessBuffer sp) then Inr sp
      else Inl OutOfBounds)"
  by (simp add: OnPointMassUpdated_def Buffer_get_def Let_def)

lemma OnPointMassUpdated_unchanged:
  "OnPointMassUpdated calc s points sp = Inr sp' \<Longrightarrow> sp' = sp"
  by (simp add: OnPointMassUpdated_result split: if_splits)

text \<open>
  C1. The claim: after \<^verbatim>\<open>OnPointMassUpdated\<close> the stiffness coefficient in the buffer
  is the one \<^verbatim>\<open>CalculateStiffnessCoefficient\<close> gives for the current masses. The code
  does not store the value it computes. Here the masses of the endpoints 0 and 1 of spring
  0 have gone from 1 to 6 (a bomb of mass 5 was attached): the update returns the container
  as it was, the coefficient in the buffer is still 60, and the calculation with the
  arguments that \<^verbatim>\<open>OnPointMassUpdated\<close> passes gives 360.
\<close>

theorem OnPointMassUpdated_leaves_stale_coefficient:
  "OnPointMassUpdated example_calculation 0 (example_points\<lparr>mMassBuffer := [6, 6, 1]\<rparr>)
       example_springs = Inr example_springs
   \<and> GetStiffnessCoefficient example_springs 0 = Inr 60
   \<and> GetPointAIndex example_springs 0 = Inr 0
   \<and> GetPointBIndex example_springs 0 = Inr 1
   \<and> GetStiffness example_springs 0 = Inr 1
   \<and> example_calculation 0 1 1 (mCurrentStiffnessAdjustment example_springs)
        (mCurrentNumMechanicalDynamicsIterations example_springs)
        (example_points\<lparr>mMassBuffer := [6, 6, 1]\<rparr>) = 360"
  by (simp add: OnPointMassUpdated_def GetStiffnessCoefficient_def GetPointAIndex_def
      GetPointBIndex_def GetStiffness_def Buffer_get_def example_springs_def example_points_def
      example_calculation_def Let_def)

text \<open>The notification of a list of springs, and the mass update of a point.\<close>

lemma NotifySprings_unchanged:
  "\<forall>s \<in> set ss. s < mElementCount sp \<and> s < length (mEndpointsBuffer sp) \<and> s < length (mStiffnessBuffer sp)
   \<Longrightarrow> NotifySprings calc ss points sp = Inr sp"
  by (induction ss) (simp_all add: OnPointMassUpdated_result)

lemma NotifySprings_failure:
  "NotifySprings calc ss points sp = Inl e \<Longrightarrow>
     e = OutOfBounds \<or> e = AssertionFailure ''springElementIndex < mElementCount''"
proof (induction ss)
  case Nil
  then show ?case by simp
next
  case (Cons s ss)
  then show ?case
    by (auto simp: OnPointMassUpdated_result split: if_splits)
qed

lemma NotifySprings_Inr:
  "NotifySprings calc ss points sp = Inr sp' \<Longrightarrow> sp' = sp"
proof (induction ss)
  case Nil
  then show ?case by simp
next
  case (Cons s ss)
  then show ?case
    by (auto simp: OnPointMassUpdated_result split: if_splits)
qed

lemma IncidentSprings_in_range:
  "s \<in> set (IncidentSprings sp p) \<Longrightarrow> s < mElementCount sp \<and> s < length (mEndpointsBuffer sp)"
  by (simp add: IncidentSprings_def)

lemma SetMassToMaterialOffset_sized:
  assumes "mElementCount sp \<le> length (mStiffnessBuffer sp)"
    and "p < length (mMassBuffer points)"
    and "length (mMaterialMassBuffer points) = length (mMassBuffer points)"
  shows "SetMassToMaterialOffset calc p offset sp points =
           Inr (points\<lparr>mMassBuffer := (mMassBuffer points)[p := mMaterialMassBuffer points ! p + offset]\<rparr>, sp)"
proof -
  have "\<forall>s \<in> set (IncidentSprings sp p).
          s < mElementCount sp \<and> s < length (mEndpointsBuffer sp) \<and> s < length (mStiffnessBuffer sp)"
    using assms(1) IncidentSprings_in_range [of _ sp p] by fastforce
  then have "NotifySprings calc (IncidentSprings sp p) pts sp = Inr sp" for pts
    by (rule NotifySprings_unchanged)
  then show ?thesis
    using assms(2,3) by (simp add: SetMassToMaterialOffset_def Buffer_get_def Buffer_set_def Let_def)
qed

lemma SetMassToMaterialOffset_failure:
  "SetMassToMaterialOffset calc p offset sp points = Inl e \<Longrightarrow>
     e = OutOfBounds \<or> e = AssertionFailure ''springElementIndex < mElementCount''"
  by (auto simp: SetMassToMaterialOffset_def Buffer_get_def Buffer_set_def Let_def and_then_def
      split: if_splits sum.splits dest: NotifySprings_failure)

section \<open>Bombs\<close>

lemma AttachBomb_effect:
  assumes "SpringsSized sp" and "s < mElementCount sp" and "PointsSized points"
    and "IsBombAttached sp s = Inr False"
    and "PointAIndex (mEndpointsBuffer sp ! s) < length (mMassBuffer points)"
    and "PointBIndex (mEndpointsBuffer sp ! s) < length (mMassBuffer points)"
  shows "AttachBomb calc s points gp sp =
     Inr (sp\<lparr>mIsBombAttachedBuffer := (mIsBombAttachedBuffer sp)[s := True]\<rparr>,
          points\<lparr>mMassBuffer :=
            ((mMassBuffer points)
               [PointAIndex (mEndpointsBuffer sp ! s) :=
                  mMaterialMassBuffer points ! PointAIndex (mEndpointsBuffer sp ! s) + BombMass gp])
               [PointBIndex (mEndpointsBuffer sp ! s) :=
                  mMaterialMassBuffer points ! PointBIndex (mEndpointsBuffer sp ! s) + BombMass gp]\<rparr>)"
proof -
  from assms(1,2) have len: "s < length (mIsBombAttachedBuffer sp)" "s < length (mEndpointsBuffer sp)"
    "mElementCount sp \<le> length (mStiffnessBuffer sp)"
    by (simp_all add: SpringsSized_def)
  from assms(4) have flag: "mIsBombAttachedBuffer sp ! s = False"
    by (simp add: IsBombAttached_def Buffer_get_Inr)
  from assms(3) have pl: "length (mMaterialMassBuffer points) = length (mMassBuffer points)"
    by (simp add: PointsSized_def)
  show ?thesis
    using len flag pl assms(5,6)
    by (simp add: AttachBomb_def Buffer_get_def Buffer_set_def Let_def SetMassToMaterialOffset_sized)
qed

lemma DetachBomb_effect:
  assumes "SpringsSized sp" and "s < mElementCount sp" and "PointsSized points"
    and "IsBombAttached sp s = Inr True"
    and "PointAIndex (mEndpointsBuffer sp ! s) < length (mMassBuffer points)"
    and "PointBIndex (mEndpointsBuffer sp ! s) < length (mMassBuffer points)"
  shows "DetachBomb calc s points sp =
     Inr (sp\<lparr>mIsBombAttachedBuffer := (mIsBombAttachedBuffer sp)[s := False]\<rparr>,
          points\<lparr>mMassBuffer :=
            ((mMassBuffer points)
               [PointAIndex (mEndpointsBuffer sp ! s) :=
                  mMaterialMassBuffer points ! PointAIndex (mEndpointsBuffer sp ! s) + 0])
               [PointBIndex (mEndpointsBuffer sp ! s) :=
                  mMaterialMassBuffer points ! PointBIndex (mEndpointsBuffer sp ! s) + 0]\<rparr>)"
proof -
  from assms(1,2) have len: "s < length (mIsBombAttachedBuffer sp)" "s < length (mEndpointsBuffer sp)"
    "mElementCount sp \<le> length (mStiffnessBuffer sp)"
    by (simp_all add: SpringsSized_def)
  from assms(4) have flag: "mIsBombAttachedBuffer sp ! s = True"
    by (simp add: IsBombAttached_def Buffer_get_Inr)
  from assms(3) have pl: "length (mMaterialMassBuffer points) = length (mMassBuffer points)"
    by (simp add: PointsSized_def)
  show ?thesis
    using len flag pl assms(5,6)
    by (simp add: DetachBomb_def Buffer_get_def Buffer_set_def Let_def SetMassToMaterialOffset_sized)
qed

lemma AttachBomb_failure:
  assumes "AttachBomb calc s points gp sp = Inl e"
  shows "e = OutOfBounds \<or> e = AssertionFailure ''springElementIndex < mElementCount''
         \<or> (e = AssertionFailure ''false == mIsBombAttachedBuffer[springElementIndex]''
             \<and> IsBombAttached sp s = Inr True)"
  using assms
  by (auto simp: AttachBomb_def IsBombAttached_def Buffer_get_def Buffer_set_def Let_def and_then_def
      split: if_splits sum.splits prod.splits dest: SetMassToMaterialOffset_failure)

lemma DetachBomb_failure:
  assumes "DetachBomb calc s points sp = Inl e"
  shows "e = OutOfBounds \<or> e = AssertionFailure ''springElementIndex < mElementCount''
         \<or> (e = AssertionFailure ''true == mIsBombAttachedBuffer[springElementIndex]''
             \<and> IsBombAttached sp s = Inr False)"
  using assms
  by (auto simp: DetachBomb_def IsBombAttached_def Buffer_get_def Buffer_set_def Let_def and_then_def
      split: if_splits sum.splits prod.splits dest: SetMassToMaterialOffset_failure)

text \<open>
  C6. \<^verbatim>\<open>AttachBomb\<close> on a spring whose bomb flag is set fails its assertion, and so does
  \<^verbatim>\<open>DetachBomb\<close> on a spring whose flag is clear; when the flag has the other value, the
  operation does not fail that assertion.
\<close>

theorem bomb_assertions:
  "(IsBombAttached sp s = Inr True \<longrightarrow>
      AttachBomb calc s points gp sp =
        Inl (AssertionFailure ''false == mIsBombAttachedBuffer[springElementIndex]''))
   \<and> (IsBombAttached sp s = Inr False \<longrightarrow>
      AttachBomb calc s points gp sp \<noteq>
        Inl (AssertionFailure ''false == mIsBombAttachedBuffer[springElementIndex]''))
   \<and> (IsBombAttached sp s = Inr False \<longrightarrow>
      DetachBomb calc s points sp =
        Inl (AssertionFailure ''true == mIsBombAttachedBuffer[springElementIndex]''))
   \<and> (IsBombAttached sp s = Inr True \<longrightarrow>
      DetachBomb calc s points sp \<noteq>
        Inl (AssertionFailure ''true == mIsBombAttachedBuffer[springElementIndex]''))"
proof -
  have a1: "AttachBomb calc s points gp sp =
      Inl (AssertionFailure ''false == mIsBombAttachedBuffer[springElementIndex]'')"
    if "IsBombAttached sp s = Inr True"
    using that by (simp add: AttachBomb_def IsBombAttached_def)
  have d1: "DetachBomb calc s points sp =
      Inl (AssertionFailure ''true == mIsBombAttachedBuffer[springElementIndex]'')"
    if "IsBombAttached sp s = Inr False"
    using that by (simp add: DetachBomb_def IsBombAttached_def)
  have a2: "AttachBomb calc s points gp sp \<noteq>
      Inl (AssertionFailure ''false == mIsBombAttachedBuffer[springElementIndex]'')"
    if "IsBombAttached sp s = Inr False"
  proof
    assume "AttachBomb calc s points gp sp =
      Inl (AssertionFailure ''false == mIsBombAttachedBuffer[springElementIndex]'')"
    from AttachBomb_failure [OF this] that show False by simp
  qed
  have d2: "DetachBomb calc s points sp \<noteq>
      Inl (AssertionFailure ''true == mIsBombAttachedBuffer[springElementIndex]'')"
    if "IsBombAttached sp s = Inr True"
  proof
    assume "DetachBomb calc s points sp =
      Inl (AssertionFailure ''true == mIsBombAttachedBuffer[springElementIndex]'')"
    from DetachBomb_failure [OF this] that show False by simp
  qed
  show ?thesis using a1 a2 d1 d2 by blast
qed

text \<open>The theorem at spring 0 of the example, without a bomb and with one.\<close>

theorem bomb_assertions_witness:
  "IsBombAttached example_springs 0 = Inr False
   \<and> AttachBomb example_calculation 0 example_points example_parameters example_springs \<noteq>
        Inl (AssertionFailure ''false == mIsBombAttachedBuffer[springElementIndex]'')
   \<and> DetachBomb example_calculation 0 example_points example_springs =
        Inl (AssertionFailure ''true == mIsBombAttachedBuffer[springElementIndex]'')
   \<and> IsBombAttached (example_springs\<lparr>mIsBombAttachedBuffer := [True, False]\<rparr>) 0 = Inr True
   \<and> AttachBomb example_calculation 0 example_points example_parameters
        (example_springs\<lparr>mIsBombAttachedBuffer := [True, False]\<rparr>) =
        Inl (AssertionFailure ''false == mIsBombAttachedBuffer[springElementIndex]'')
   \<and> DetachBomb example_calculation 0 example_points
        (example_springs\<lparr>mIsBombAttachedBuffer := [True, False]\<rparr>) \<noteq>
        Inl (AssertionFailure ''true == mIsBombAttachedBuffer[springElementIndex]'')"
proof -
  have off: "IsBombAttached example_springs 0 = Inr False"
    by (simp add: IsBombAttached_def Buffer_get_def example_springs_def)
  have on: "IsBombAttached (example_springs\<lparr>mIsBombAttachedBuffer := [True, False]\<rparr>) 0 = Inr True"
    by (simp add: IsBombAttached_def Buffer_get_def)
  show ?thesis
    using off on
      bomb_assertions [of example_springs 0 example_calculation example_points example_parameters]
      bomb_assertions [of "example_springs\<lparr>mIsBombAttachedBuffer := [True, False]\<rparr>" 0
        example_calculation example_points example_parameters]
    by simp
qed

text \<open>
  C5, as amended. In a container whose buffers are sized, for a spring \<open>s\<close> with endpoints
  \<open>a\<close> and \<open>b\<close> whose materials have the masses \<open>ma\<close> and \<open>mb\<close>:
  \<^item> with no bomb attached, \<^verbatim>\<open>AttachBomb\<close> sets the flag of the spring and gives both
    endpoints the mass of their material plus the bomb mass;
  \<^item> with a bomb attached, \<^verbatim>\<open>DetachBomb\<close> clears the flag and gives both endpoints the
    mass of their material plus zero;
  \<^item> an attach followed by a detach leaves the flag of the spring clear and both
    endpoints at the mass of their material; the points are as they were before the
    attach when both endpoints had the mass of their material then.
\<close>

theorem AttachBomb_then_DetachBomb:
  assumes sized: "SpringsSized sp" "PointsSized points" and s: "s < mElementCount sp"
    and a: "GetPointAIndex sp s = Inr a" and b: "GetPointBIndex sp s = Inr b"
    and ma: "GetMaterialMass points a = Inr ma" and mb: "GetMaterialMass points b = Inr mb"
  shows "(IsBombAttached sp s = Inr False \<longrightarrow>
            (\<exists>sp1 points1. AttachBomb calc s points gp sp = Inr (sp1, points1)
               \<and> IsBombAttached sp1 s = Inr True
               \<and> GetMass points1 a = Inr (ma + BombMass gp)
               \<and> GetMass points1 b = Inr (mb + BombMass gp)))
       \<and> (IsBombAttached sp s = Inr True \<longrightarrow>
            (\<exists>sp2 points2. DetachBomb calc s points sp = Inr (sp2, points2)
               \<and> IsBombAttached sp2 s = Inr False
               \<and> GetMass points2 a = Inr (ma + 0)
               \<and> GetMass points2 b = Inr (mb + 0)))
       \<and> (IsBombAttached sp s = Inr False \<longrightarrow>
            (\<exists>sp1 points1 sp2 points2.
               AttachBomb calc s points gp sp = Inr (sp1, points1)
               \<and> DetachBomb calc s points1 sp1 = Inr (sp2, points2)
               \<and> IsBombAttached sp2 s = Inr False
               \<and> GetMass points2 a = Inr ma \<and> GetMass points2 b = Inr mb
               \<and> (GetMass points a = Inr ma \<and> GetMass points b = Inr mb \<longrightarrow> points2 = points)))"
proof -
  from sized(1) s have ls: "s < length (mEndpointsBuffer sp)" "s < length (mIsBombAttachedBuffer sp)"
    by (simp_all add: SpringsSized_def)
  from a ls have ea: "PointAIndex (mEndpointsBuffer sp ! s) = a"
    by (simp add: GetPointAIndex_def Buffer_get_def)
  from b ls have eb: "PointBIndex (mEndpointsBuffer sp ! s) = b"
    by (simp add: GetPointBIndex_def Buffer_get_def)
  from sized(2) have pl: "length (mMaterialMassBuffer points) = length (mMassBuffer points)"
    by (simp add: PointsSized_def)
  from ma pl have la: "a < length (mMassBuffer points)" and va: "mMaterialMassBuffer points ! a = ma"
    by (simp_all add: GetMaterialMass_def Buffer_get_Inr)
  from mb pl have lb: "b < length (mMassBuffer points)" and vb: "mMaterialMassBuffer points ! b = mb"
    by (simp_all add: GetMaterialMass_def Buffer_get_Inr)
  have same: "ma = mb" if "a = b"
    using that va vb by simp
  define sp1 where "sp1 = sp\<lparr>mIsBombAttachedBuffer := (mIsBombAttachedBuffer sp)[s := True]\<rparr>"
  define points1 where "points1 = points\<lparr>mMassBuffer :=
      ((mMassBuffer points)[a := ma + BombMass gp])[b := mb + BombMass gp]\<rparr>"
  define sp2 where "sp2 = sp\<lparr>mIsBombAttachedBuffer := (mIsBombAttachedBuffer sp)[s := False]\<rparr>"
  define points2 where "points2 = points\<lparr>mMassBuffer :=
      ((mMassBuffer points)[a := ma + 0])[b := mb + 0]\<rparr>"
  have attach: "AttachBomb calc s points gp sp = Inr (sp1, points1)"
    if "IsBombAttached sp s = Inr False"
    using AttachBomb_effect [OF sized(1) s sized(2) that, of calc gp] la lb
    by (simp add: ea eb va vb sp1_def points1_def)
  have detach: "DetachBomb calc s points sp = Inr (sp2, points2)"
    if "IsBombAttached sp s = Inr True"
    using DetachBomb_effect [OF sized(1) s sized(2) that, of calc] la lb
    by (simp add: ea eb va vb sp2_def points2_def)
  have flag1: "IsBombAttached sp1 s = Inr True"
    using ls by (simp add: sp1_def IsBombAttached_def Buffer_get_def)
  have flag2: "IsBombAttached sp2 s = Inr False"
    using ls by (simp add: sp2_def IsBombAttached_def Buffer_get_def)
  have mass1: "GetMass points1 a = Inr (ma + BombMass gp)" "GetMass points1 b = Inr (mb + BombMass gp)"
    using la lb same by (auto simp: points1_def GetMass_def Buffer_get_def nth_list_update)
  have mass2: "GetMass points2 a = Inr (ma + 0)" "GetMass points2 b = Inr (mb + 0)"
    using la lb same by (auto simp: points2_def GetMass_def Buffer_get_def nth_list_update)
  have sized1: "SpringsSized sp1" "PointsSized points1" "s < mElementCount sp1"
    using sized s by (simp_all add: sp1_def points1_def SpringsSized_def PointsSized_def)
  have ends1: "PointAIndex (mEndpointsBuffer sp1 ! s) = a" "PointBIndex (mEndpointsBuffer sp1 ! s) = b"
    "a < length (mMassBuffer points1)" "b < length (mMassBuffer points1)"
    "mMaterialMassBuffer points1 = mMaterialMassBuffer points"
    using ea eb la lb by (simp_all add: sp1_def points1_def)
  have detach1: "DetachBomb calc s points1 sp1 = Inr (sp, points2)"
    if off: "IsBombAttached sp s = Inr False"
  proof -
    from off ls have orig: "(mIsBombAttachedBuffer sp)[s := False] = mIsBombAttachedBuffer sp"
      by (simp add: IsBombAttached_def Buffer_get_Inr list_update_same_conv)
    have sp_again: "sp1\<lparr>mIsBombAttachedBuffer := (mIsBombAttachedBuffer sp1)[s := False]\<rparr> = sp"
      by (simp add: sp1_def orig)
    have masses: "points1\<lparr>mMassBuffer :=
          ((mMassBuffer points1)[a := ma])[b := mb]\<rparr> = points2"
      by (cases "a = b") (simp_all add: points1_def points2_def list_update_swap)
    show ?thesis
      using DetachBomb_effect [OF sized1(1) sized1(3) sized1(2) flag1, of calc]
      by (simp add: ends1 va vb sp_again masses)
  qed
  have restored: "points2 = points" if "GetMass points a = Inr ma" "GetMass points b = Inr mb"
  proof -
    from that have eq: "ma = mMassBuffer points ! a" "mb = mMassBuffer points ! b"
      by (simp_all add: GetMass_def Buffer_get_Inr)
    have "((mMassBuffer points)[a := ma + 0])[b := mb + 0] = mMassBuffer points"
      unfolding eq by simp
    then show ?thesis by (simp add: points2_def)
  qed
  show ?thesis
    using attach detach detach1 flag1 flag2 mass1 mass2 restored by auto
qed

text \<open>The theorem at spring 0 of the example, without a bomb and with one.\<close>

theorem AttachBomb_then_DetachBomb_witness:
  "SpringsSized example_springs \<and> PointsSized example_points
   \<and> IsBombAttached example_springs 0 = Inr False
   \<and> (\<exists>sp1 points1.
         AttachBomb example_calculation 0 example_points example_parameters example_springs
           = Inr (sp1, points1)
         \<and> IsBombAttached sp1 0 = Inr True
         \<and> GetMass points1 0 = Inr 6 \<and> GetMass points1 1 = Inr 6)
   \<and> (\<exists>sp1 points1 sp2 points2.
         AttachBomb example_calculation 0 example_points example_parameters example_springs
           = Inr (sp1, points1)
         \<and> DetachBomb example_calculation 0 points1 sp1 = Inr (sp2, points2)
         \<and> IsBombAttached sp2 0 = Inr False \<and> points2 = example_points)
   \<and> IsBombAttached (example_springs\<lparr>mIsBombAttachedBuffer := [True, False]\<rparr>) 0 = Inr True
   \<and> (\<exists>sp2 points2.
         DetachBomb example_calculation 0 (example_points\<lparr>mMassBuffer := [6, 6, 1]\<rparr>)
           (example_springs\<lparr>mIsBombAttachedBuffer := [True, False]\<rparr>) = Inr (sp2, points2)
         \<and> IsBombAttached sp2 0 = Inr False
         \<and> GetMass points2 0 = Inr 1 \<and> GetMass points2 1 = Inr 1)"
proof -
  have sized: "SpringsSized example_springs" "PointsSized example_points"
    by (simp_all add: SpringsSized_def PointsSized_def example_springs_def example_points_def)
  have sized': "SpringsSized (example_springs\<lparr>mIsBombAttachedBuffer := [True, False]\<rparr>)"
    "PointsSized (example_points\<lparr>mMassBuffer := [6, 6, 1]\<rparr>)"
    by (simp_all add: SpringsSized_def PointsSized_def example_springs_def example_points_def)
  have s: "0 < mElementCount example_springs"
    "0 < mElementCount (example_springs\<lparr>mIsBombAttachedBuffer := [True, False]\<rparr>)"
    by (simp_all add: example_springs_def)
  have a: "GetPointAIndex example_springs 0 = Inr 0"
    "GetPointAIndex (example_springs\<lparr>mIsBombAttachedBuffer := [True, False]\<rparr>) 0 = Inr 0"
    by (simp_all add: GetPointAIndex_def Buffer_get_def example_springs_def)
  have b: "GetPointBIndex example_springs 0 = Inr 1"
    "GetPointBIndex (example_springs\<lparr>mIsBombAttachedBuffer := [True, False]\<rparr>) 0 = Inr 1"
    by (simp_all add: GetPointBIndex_def Buffer_get_def example_springs_def)
  have m: "GetMaterialMass example_points 0 = Inr 1" "GetMaterialMass example_points 1 = Inr 1"
    "GetMaterialMass (example_points\<lparr>mMassBuffer := [6, 6, 1]\<rparr>) 0 = Inr 1"
    "GetMaterialMass (example_points\<lparr>mMassBuffer := [6, 6, 1]\<rparr>) 1 = Inr 1"
    by (simp_all add: GetMaterialMass_def Buffer_get_def example_points_def)
  have g: "GetMass example_points 0 = Inr 1" "GetMass example_points 1 = Inr 1"
    by (simp_all add: GetMass_def Buffer_get_def example_points_def)
  have off: "IsBombAttached example_springs 0 = Inr False"
    by (simp add: IsBombAttached_def Buffer_get_def example_springs_def)
  have on: "IsBombAttached (example_springs\<lparr>mIsBombAttachedBuffer := [True, False]\<rparr>) 0 = Inr True"
    by (simp add: IsBombAttached_def Buffer_get_def)
  have bomb: "BombMass example_parameters = 5"
    by (simp add: example_parameters_def)
  note t1 = AttachBomb_then_DetachBomb [OF sized s(1) a(1) b(1) m(1) m(2),
      of example_calculation example_parameters]
  note t2 = AttachBomb_then_DetachBomb [OF sized' s(2) a(2) b(2) m(3) m(4),
      of example_calculation example_parameters]
  from t1 off g bomb have p1: "\<exists>sp1 points1.
         AttachBomb example_calculation 0 example_points example_parameters example_springs
           = Inr (sp1, points1)
         \<and> IsBombAttached sp1 0 = Inr True
         \<and> GetMass points1 0 = Inr 6 \<and> GetMass points1 1 = Inr 6"
    by simp
  from t1 off g have p2: "\<exists>sp1 points1 sp2 points2.
         AttachBomb example_calculation 0 example_points example_parameters example_springs
           = Inr (sp1, points1)
         \<and> DetachBomb example_calculation 0 points1 sp1 = Inr (sp2, points2)
         \<and> IsBombAttached sp2 0 = Inr False \<and> points2 = example_points"
    by auto
  from t2 on have p3: "\<exists>sp2 points2.
         DetachBomb example_calculation 0 (example_points\<lparr>mMassBuffer := [6, 6, 1]\<rparr>)
           (example_springs\<lparr>mIsBombAttachedBuffer := [True, False]\<rparr>) = Inr (sp2, points2)
         \<and> IsBombAttached sp2 0 = Inr False
         \<and> GetMass points2 0 = Inr 1 \<and> GetMass points2 1 = Inr 1"
    by simp
  show ?thesis
    using sized off on p1 p2 p3 by blast
qed

text \<open>
  The claim C5 as it was stated ("an attach followed by a detach restores both endpoints'
  masses") fails where an endpoint is shared with a spring that carries a bomb. A bomb is
  attached to spring 1, which gives point 1 the mass 6. Spring 0 has no bomb; a bomb is
  attached to it and detached again. Point 1, an endpoint of spring 0, had the mass 6
  before the attach and has the mass 1 after the detach, while the bomb of spring 1 is
  still attached.
\<close>

theorem DetachBomb_removes_mass_of_other_bomb:
  "AttachBomb example_calculation 1 example_points example_parameters example_springs
     = Inr (example_springs\<lparr>mIsBombAttachedBuffer := [False, True]\<rparr>,
            example_points\<lparr>mMassBuffer := [1, 6, 6]\<rparr>)
   \<and> IsBombAttached (example_springs\<lparr>mIsBombAttachedBuffer := [False, True]\<rparr>) 0 = Inr False
   \<and> GetPointBIndex (example_springs\<lparr>mIsBombAttachedBuffer := [False, True]\<rparr>) 0 = Inr 1
   \<and> GetMass (example_points\<lparr>mMassBuffer := [1, 6, 6]\<rparr>) 1 = Inr 6
   \<and> AttachBomb example_calculation 0 (example_points\<lparr>mMassBuffer := [1, 6, 6]\<rparr>)
        example_parameters (example_springs\<lparr>mIsBombAttachedBuffer := [False, True]\<rparr>)
     = Inr (example_springs\<lparr>mIsBombAttachedBuffer := [True, True]\<rparr>,
            example_points\<lparr>mMassBuffer := [6, 6, 6]\<rparr>)
   \<and> DetachBomb example_calculation 0 (example_points\<lparr>mMassBuffer := [6, 6, 6]\<rparr>)
        (example_springs\<lparr>mIsBombAttachedBuffer := [True, True]\<rparr>)
     = Inr (example_springs\<lparr>mIsBombAttachedBuffer := [False, True]\<rparr>,
            example_points\<lparr>mMassBuffer := [1, 1, 6]\<rparr>)
   \<and> GetMass (example_points\<lparr>mMassBuffer := [1, 1, 6]\<rparr>) 1 = Inr 1
   \<and> IsBombAttached (example_springs\<lparr>mIsBombAttachedBuffer := [False, True]\<rparr>) 1 = Inr True"
proof -
  have sized: "SpringsSized (example_springs\<lparr>mIsBombAttachedBuffer := [u, v]\<rparr>)"
    "PointsSized (example_points\<lparr>mMassBuffer := [x, y, z]\<rparr>)"
    "SpringsSized example_springs" "PointsSized example_points" for u v x y z
    by (simp_all add: SpringsSized_def PointsSized_def example_springs_def example_points_def)
  have first: "AttachBomb example_calculation 1 example_points example_parameters example_springs
     = Inr (example_springs\<lparr>mIsBombAttachedBuffer := [False, True]\<rparr>,
            example_points\<lparr>mMassBuffer := [1, 6, 6]\<rparr>)"
    using AttachBomb_effect [OF sized(3) _ sized(4), of 1 example_calculation example_parameters]
    by (simp add: IsBombAttached_def Buffer_get_def example_springs_def example_points_def
        example_parameters_def)
  have second: "AttachBomb example_calculation 0 (example_points\<lparr>mMassBuffer := [1, 6, 6]\<rparr>)
        example_parameters (example_springs\<lparr>mIsBombAttachedBuffer := [False, True]\<rparr>)
     = Inr (example_springs\<lparr>mIsBombAttachedBuffer := [True, True]\<rparr>,
            example_points\<lparr>mMassBuffer := [6, 6, 6]\<rparr>)"
    using AttachBomb_effect [OF sized(1) _ sized(2), of 0 False True 1 6 6
        example_calculation example_parameters]
    by (simp add: IsBombAttached_def Buffer_get_def example_springs_def example_points_def
        example_parameters_def)
  have third: "DetachBomb example_calculation 0 (example_points\<lparr>mMassBuffer := [6, 6, 6]\<rparr>)
        (example_springs\<lparr>mIsBombAttachedBuffer := [True, True]\<rparr>)
     = Inr (example_springs\<lparr>mIsBombAttachedBuffer := [False, True]\<rparr>,
            example_points\<lparr>mMassBuffer := [1, 1, 6]\<rparr>)"
    using DetachBomb_effect [OF sized(1) _ sized(2), of 0 True True 6 6 6 example_calculation]
    by (simp add: IsBombAttached_def Buffer_get_def example_springs_def example_points_def)
  have reads: "IsBombAttached (example_springs\<lparr>mIsBombAttachedBuffer := [False, True]\<rparr>) 0 = Inr False"
    "GetPointBIndex (example_springs\<lparr>mIsBombAttachedBuffer := [False, True]\<rparr>) 0 = Inr 1"
    "GetMass (example_points\<lparr>mMassBuffer := [1, 6, 6]\<rparr>) 1 = Inr 6"
    "GetMass (example_points\<lparr>mMassBuffer := [1, 1, 6]\<rparr>) 1 = Inr 1"
    "IsBombAttached (example_springs\<lparr>mIsBombAttachedBuffer := [False, True]\<rparr>) 1 = Inr True"
    by (simp_all add: IsBombAttached_def GetPointBIndex_def GetMass_def Buffer_get_def
        example_springs_def)
  show ?thesis
    using first second third reads by simp
qed

section \<open>Destroying a spring\<close>

text \<open>
  A second handler is refused, an empty handler leaves the container without one, and a
  spring that is deleted is not destroyed again.
\<close>

lemma RegisterDestroyHandler_second:
  "mDestroyHandler sp = Some h \<Longrightarrow>
     RegisterDestroyHandler h' sp = Inl (AssertionFailure ''!mDestroyHandler'')"
  by (simp add: RegisterDestroyHandler_def)

lemma RegisterDestroyHandler_empty:
  "mDestroyHandler sp = None \<Longrightarrow> RegisterDestroyHandler None sp = Inr sp"
  by (simp add: RegisterDestroyHandler_def)

lemma Destroy_deleted:
  "IsDeleted sp s = Inr True \<Longrightarrow>
     Destroy s opts t gp points (sp, world) = Inl (AssertionFailure ''!IsDeleted(springElementIndex)'')"
  by (simp add: Destroy_def)

text \<open>
  C2. For a live spring, a registered handler and options with \<^verbatim>\<open>FireBreakEvent\<close> set,
  \<^verbatim>\<open>Destroy\<close> returns the world that one call of the handler leaves, and the container
  with the spring marked as deleted. The handler is given the buffers as they are before
  the mark is set: \<^verbatim>\<open>IsDeleted\<close>, read from them for the spring, returns false.
\<close>

theorem Destroy_invokes_handler_once_before_deletion:
  assumes "IsDeleted sp s = Inr False" and "mDestroyHandler sp = Some handler"
    and "opts AND FireBreakEvent \<noteq> 0"
  shows "Destroy s opts t gp points (sp, world) =
           Inr (sp\<lparr>mIsDeletedBuffer := (mIsDeletedBuffer sp)[s := True]\<rparr>,
                handler (SpringsBuffers.truncate sp) s (opts AND DestroyAllTriangles \<noteq> 0) t gp world)
         \<and> IsDeleted (SpringsBuffers.truncate sp) s = Inr False
         \<and> IsDeleted (sp\<lparr>mIsDeletedBuffer := (mIsDeletedBuffer sp)[s := True]\<rparr>) s = Inr True"
proof -
  from assms(1) have len: "s < length (mIsDeletedBuffer sp)"
    by (simp add: IsDeleted_def Buffer_get_Inr)
  have view: "IsDeleted (SpringsBuffers.truncate sp) s = IsDeleted sp s"
    by (simp add: IsDeleted_def SpringsBuffers.truncate_def)
  have run: "Destroy s opts t gp points (sp, world) =
           Inr (sp\<lparr>mIsDeletedBuffer := (mIsDeletedBuffer sp)[s := True]\<rparr>,
                handler (SpringsBuffers.truncate sp) s (opts AND DestroyAllTriangles \<noteq> 0) t gp world)"
    using assms len by (simp add: Destroy_def Buffer_set_def Let_def)
  have after: "IsDeleted (sp\<lparr>mIsDeletedBuffer := (mIsDeletedBuffer sp)[s := True]\<rparr>) s = Inr True"
    using len by (simp add: IsDeleted_def Buffer_get_def)
  show ?thesis
    using run view assms(1) after by simp
qed

text \<open>
  The theorem with the handler that keeps a log, registered on the example: after spring
  0 is destroyed, the log holds one call, for spring 0, and the handler has read the
  spring as not deleted.
\<close>

theorem Destroy_invokes_handler_once_before_deletion_witness:
  "RegisterDestroyHandler (Some logging_handler) example_unregistered = Inr example_container
   \<and> IsDeleted example_container 0 = Inr False
   \<and> mDestroyHandler example_container = Some logging_handler
   \<and> FireBreakEvent AND FireBreakEvent \<noteq> 0
   \<and> Destroy 0 FireBreakEvent 0 example_parameters example_points (example_container, []) =
       Inr (example_container\<lparr>mIsDeletedBuffer := [True, False]\<rparr>, [(0, False, Inr False)])
   \<and> IsDeleted (example_container\<lparr>mIsDeletedBuffer := [True, False]\<rparr>) 0 = Inr True"
proof -
  have live: "IsDeleted example_container 0 = Inr False"
    by (simp add: IsDeleted_def Buffer_get_def example_container_def example_springs_def
        SpringsBuffers.extend_def)
  have handler: "mDestroyHandler example_container = Some logging_handler"
    by (simp add: example_container_def SpringsBuffers.extend_def Springs.fields_def)
  have registered: "RegisterDestroyHandler (Some logging_handler) example_unregistered = Inr example_container"
    by (simp add: RegisterDestroyHandler_def example_unregistered_def example_container_def
        SpringsBuffers.extend_def Springs.fields_def)
  have fire: "FireBreakEvent AND FireBreakEvent \<noteq> 0"
    by (simp add: FireBreakEvent_def)
  have buf: "(mIsDeletedBuffer example_container)[0 := True] = [True, False]"
    by (simp add: example_container_def example_springs_def SpringsBuffers.extend_def)
  have triangles: "\<not> (FireBreakEvent AND DestroyAllTriangles \<noteq> 0)"
    by (simp add: FireBreakEvent_def DestroyAllTriangles_def)
  from Destroy_invokes_handler_once_before_deletion [OF live handler fire,
      of 0 example_parameters example_points "[]"]
  show ?thesis
    using registered live handler fire triangles by (simp add: buf logging_handler_def)
qed

section \<open>Connected components\<close>

lemma Relabel_length: "length (Relabel old new ids) = length ids"
  by (simp add: Relabel_def)

lemma Relabel_keeps_equal:
  "p < length ids \<Longrightarrow> q < length ids \<Longrightarrow> ids ! p = ids ! q
    \<Longrightarrow> Relabel old new ids ! p = Relabel old new ids ! q"
  by (simp add: Relabel_def)

lemma Relabel_joins:
  "a < length ids \<Longrightarrow> b < length ids
    \<Longrightarrow> Relabel (ids ! b) (ids ! a) ids ! a = Relabel (ids ! b) (ids ! a) ids ! b"
  by (simp add: Relabel_def)

text \<open>
  The loop over the springs: when the endpoints of every live spring are points, it
  returns ids of which those of the two endpoints of every live spring are equal; points
  with equal ids before have equal ids after.
\<close>

lemma JoinSprings_joins:
  assumes "\<forall>(deleted, e) \<in> set es. \<not> deleted \<longrightarrow>
             PointAIndex e < length ids \<and> PointBIndex e < length ids"
  shows "\<exists>ids'. JoinSprings es ids = Inr ids' \<and> length ids' = length ids
           \<and> (\<forall>p q. p < length ids \<and> q < length ids \<and> ids ! p = ids ! q \<longrightarrow> ids' ! p = ids' ! q)
           \<and> (\<forall>(deleted, e) \<in> set es. \<not> deleted \<longrightarrow> ids' ! PointAIndex e = ids' ! PointBIndex e)"
  using assms
proof (induction es arbitrary: ids)
  case Nil
  then show ?case by simp
next
  case (Cons x es)
  obtain deleted e where x: "x = (deleted, e)" by (cases x)
  show ?case
  proof (cases deleted)
    case True
    from Cons.prems have "\<forall>(deleted, e) \<in> set es. \<not> deleted \<longrightarrow>
             PointAIndex e < length ids \<and> PointBIndex e < length ids"
      by simp
    from Cons.IH [OF this] obtain ids' where
      run: "JoinSprings es ids = Inr ids'" and len: "length ids' = length ids"
      and keep: "\<forall>p q. p < length ids \<and> q < length ids \<and> ids ! p = ids ! q \<longrightarrow> ids' ! p = ids' ! q"
      and rest: "\<forall>(deleted, e) \<in> set es. \<not> deleted \<longrightarrow> ids' ! PointAIndex e = ids' ! PointBIndex e"
      by blast
    have step: "JoinSprings (x # es) ids = Inr ids'"
      using x True run by simp
    have all: "\<forall>(deleted, e) \<in> set (x # es). \<not> deleted \<longrightarrow> ids' ! PointAIndex e = ids' ! PointBIndex e"
      using rest x True by simp
    from step len keep all show ?thesis
      by blast
  next
    case False
    with Cons.prems x have ab: "PointAIndex e < length ids" "PointBIndex e < length ids"
      by auto
    let ?ids = "Relabel (ids ! PointBIndex e) (ids ! PointAIndex e) ids"
    from Cons.prems have "\<forall>(deleted, e) \<in> set es. \<not> deleted \<longrightarrow>
             PointAIndex e < length ?ids \<and> PointBIndex e < length ?ids"
      by (simp add: Relabel_length)
    from Cons.IH [OF this] obtain ids' where
      run: "JoinSprings es ?ids = Inr ids'" and len: "length ids' = length ?ids"
      and keep: "\<forall>p q. p < length ?ids \<and> q < length ?ids \<and> ?ids ! p = ?ids ! q \<longrightarrow> ids' ! p = ids' ! q"
      and rest: "\<forall>(deleted, e) \<in> set es. \<not> deleted \<longrightarrow> ids' ! PointAIndex e = ids' ! PointBIndex e"
      by blast
    have step: "JoinSprings (x # es) ids = Inr ids'"
      using x False ab run by (simp add: Buffer_get_def)
    have here: "ids' ! PointAIndex e = ids' ! PointBIndex e"
      using keep [rule_format, of "PointAIndex e" "PointBIndex e"] ab Relabel_joins [OF ab]
      by (simp add: Relabel_length)
    have keep': "ids' ! p = ids' ! q" if "p < length ids" "q < length ids" "ids ! p = ids ! q" for p q
      using keep [rule_format, of p q] that Relabel_keeps_equal [OF that]
      by (simp add: Relabel_length)
    have len': "length ids' = length ids"
      using len by (simp add: Relabel_length)
    have all: "\<forall>(deleted, e) \<in> set (x # es). \<not> deleted \<longrightarrow> ids' ! PointAIndex e = ids' ! PointBIndex e"
      using here rest x by simp
    from step len' keep' all show ?thesis
      by blast
  qed
qed

text \<open>
  C3. When the endpoints of every non-deleted spring are points, the analysis returns
  points in which, for every non-deleted spring, the connected-component id of endpoint A
  is that of endpoint B, and \<^verbatim>\<open>GetConnectedComponentId\<close> of the spring returns it (its
  assertion holds).
\<close>

theorem DetectConnectedComponents_joins_endpoints:
  assumes "\<forall>s < mElementCount sp. IsDeleted sp s = Inr False \<longrightarrow>
             (\<exists>a b. GetPointAIndex sp s = Inr a \<and> GetPointBIndex sp s = Inr b
                \<and> a < length (mConnectedComponentIdBuffer points)
                \<and> b < length (mConnectedComponentIdBuffer points))"
  shows "\<exists>points'. DetectConnectedComponents sp points = Inr points'
           \<and> (\<forall>s < mElementCount sp. IsDeleted sp s = Inr False \<longrightarrow>
                (\<exists>a b c. GetPointAIndex sp s = Inr a \<and> GetPointBIndex sp s = Inr b
                   \<and> Points_GetConnectedComponentId points' a = Inr c
                   \<and> Points_GetConnectedComponentId points' b = Inr c
                   \<and> GetConnectedComponentId sp s points' = Inr c))"
proof -
  let ?n = "length (mConnectedComponentIdBuffer points)"
  let ?es = "take (mElementCount sp) (zip (mIsDeletedBuffer sp) (mEndpointsBuffer sp))"
  have valid: "PointAIndex e < length [0..<?n] \<and> PointBIndex e < length [0..<?n]"
    if "(deleted, e) \<in> set ?es" "\<not> deleted" for deleted e
  proof -
    from that(1) obtain i where i: "i < length ?es" "?es ! i = (deleted, e)"
      by (auto simp: in_set_conv_nth)
    then have r: "i < mElementCount sp" "i < length (mIsDeletedBuffer sp)"
      "i < length (mEndpointsBuffer sp)" "mIsDeletedBuffer sp ! i = deleted"
      "mEndpointsBuffer sp ! i = e"
      by simp_all
    with that(2) have "IsDeleted sp i = Inr False"
      by (simp add: IsDeleted_def Buffer_get_def)
    with assms r(1) obtain a b where "GetPointAIndex sp i = Inr a" "GetPointBIndex sp i = Inr b"
      "a < ?n" "b < ?n"
      by blast
    with r show ?thesis
      by (simp add: GetPointAIndex_def GetPointBIndex_def Buffer_get_def)
  qed
  then have "\<forall>(deleted, e) \<in> set ?es. \<not> deleted \<longrightarrow>
      PointAIndex e < length [0..<?n] \<and> PointBIndex e < length [0..<?n]"
    by blast
  from JoinSprings_joins [OF this] obtain ids where
    run: "JoinSprings ?es [0..<?n] = Inr ids" and len: "length ids = ?n"
    and joined: "\<forall>(deleted, e) \<in> set ?es. \<not> deleted \<longrightarrow> ids ! PointAIndex e = ids ! PointBIndex e"
    by auto
  let ?points = "points\<lparr>mConnectedComponentIdBuffer := ids\<rparr>"
  have result: "DetectConnectedComponents sp points = Inr ?points"
    using run by (simp add: DetectConnectedComponents_def)
  have spring: "\<exists>a b c. GetPointAIndex sp s = Inr a \<and> GetPointBIndex sp s = Inr b
                   \<and> Points_GetConnectedComponentId ?points a = Inr c
                   \<and> Points_GetConnectedComponentId ?points b = Inr c
                   \<and> GetConnectedComponentId sp s ?points = Inr c"
    if s: "s < mElementCount sp" and live: "IsDeleted sp s = Inr False" for s
  proof -
    from assms s live obtain a b where ab: "GetPointAIndex sp s = Inr a" "GetPointBIndex sp s = Inr b"
      "a < ?n" "b < ?n"
      by blast
    from live have d: "s < length (mIsDeletedBuffer sp)" "mIsDeletedBuffer sp ! s = False"
      by (simp_all add: IsDeleted_def Buffer_get_Inr)
    from ab(1) have e: "s < length (mEndpointsBuffer sp)"
      by (simp add: GetPointAIndex_def Buffer_get_def split: if_splits)
    from ab(1,2) e have ends: "PointAIndex (mEndpointsBuffer sp ! s) = a"
      "PointBIndex (mEndpointsBuffer sp ! s) = b"
      by (simp_all add: GetPointAIndex_def GetPointBIndex_def Buffer_get_def)
    have "s < length ?es" "?es ! s = (False, mEndpointsBuffer sp ! s)"
      using s d e by simp_all
    then have "(False, mEndpointsBuffer sp ! s) \<in> set ?es"
      by (metis nth_mem)
    with joined have eq: "ids ! a = ids ! b"
      using ends by auto
    have ca: "Points_GetConnectedComponentId ?points a = Inr (ids ! a)"
      and cb: "Points_GetConnectedComponentId ?points b = Inr (ids ! a)"
      using ab(3,4) len eq by (simp_all add: Points_GetConnectedComponentId_def Buffer_get_def)
    have "GetConnectedComponentId sp s ?points = Inr (ids ! a)"
      by (simp add: GetConnectedComponentId_def ab(1,2) ca cb)
    with ab ca cb show ?thesis by blast
  qed
  from result spring show ?thesis by blast
qed

text \<open>
  The theorem at the example with spring 1 deleted: the points 0 and 1, the endpoints of
  spring 0, get the id 0, and point 2 keeps an id of its own.
\<close>

theorem DetectConnectedComponents_joins_endpoints_witness:
  "mElementCount (example_springs\<lparr>mIsDeletedBuffer := [False, True]\<rparr>) = 2
   \<and> IsDeleted (example_springs\<lparr>mIsDeletedBuffer := [False, True]\<rparr>) 0 = Inr False
   \<and> IsDeleted (example_springs\<lparr>mIsDeletedBuffer := [False, True]\<rparr>) 1 = Inr True
   \<and> DetectConnectedComponents (example_springs\<lparr>mIsDeletedBuffer := [False, True]\<rparr>) example_points
       = Inr (example_points\<lparr>mConnectedComponentIdBuffer := [0, 0, 2]\<rparr>)
   \<and> (\<exists>points' c. DetectConnectedComponents (example_springs\<lparr>mIsDeletedBuffer := [False, True]\<rparr>)
            example_points = Inr points'
         \<and> Points_GetConnectedComponentId points' 0 = Inr c
         \<and> Points_GetConnectedComponentId points' 1 = Inr c
         \<and> GetConnectedComponentId (example_springs\<lparr>mIsDeletedBuffer := [False, True]\<rparr>) 0 points' = Inr c)"
proof -
  let ?sp = "example_springs\<lparr>mIsDeletedBuffer := [False, True]\<rparr>"
  have count: "mElementCount ?sp = 2"
    by (simp add: example_springs_def)
  have live: "IsDeleted ?sp 0 = Inr False" and dead: "IsDeleted ?sp 1 = Inr True"
    by (simp_all add: IsDeleted_def Buffer_get_def)
  have only: "s = 0" if "s < mElementCount ?sp" "IsDeleted ?sp s = Inr False" for s
  proof -
    from that(1) count have "s = 0 \<or> s = 1" by auto
    with that(2) dead show ?thesis by auto
  qed
  have ends: "GetPointAIndex ?sp 0 = Inr 0" "GetPointBIndex ?sp 0 = Inr 1"
    by (simp_all add: GetPointAIndex_def GetPointBIndex_def Buffer_get_def example_springs_def)
  have n: "length (mConnectedComponentIdBuffer example_points) = 3"
    by (simp add: example_points_def)
  have hyp: "\<forall>s < mElementCount ?sp. IsDeleted ?sp s = Inr False \<longrightarrow>
             (\<exists>a b. GetPointAIndex ?sp s = Inr a \<and> GetPointBIndex ?sp s = Inr b
                \<and> a < length (mConnectedComponentIdBuffer example_points)
                \<and> b < length (mConnectedComponentIdBuffer example_points))"
  proof (intro allI impI)
    fix s
    assume "s < mElementCount ?sp" and "IsDeleted ?sp s = Inr False"
    then have "s = 0" by (rule only)
    with ends n show "\<exists>a b. GetPointAIndex ?sp s = Inr a \<and> GetPointBIndex ?sp s = Inr b
                \<and> a < length (mConnectedComponentIdBuffer example_points)
                \<and> b < length (mConnectedComponentIdBuffer example_points)"
      by simp
  qed
  from DetectConnectedComponents_joins_endpoints [OF hyp] obtain points' where
    run: "DetectConnectedComponents ?sp example_points = Inr points'"
    and all: "\<forall>s < mElementCount ?sp. IsDeleted ?sp s = Inr False \<longrightarrow>
                (\<exists>a b c. GetPointAIndex ?sp s = Inr a \<and> GetPointBIndex ?sp s = Inr b
                   \<and> Points_GetConnectedComponentId points' a = Inr c
                   \<and> Points_GetConnectedComponentId points' b = Inr c
                   \<and> GetConnectedComponentId ?sp s points' = Inr c)"
    by blast
  from all [rule_format, of 0] count live ends obtain c where
    c: "Points_GetConnectedComponentId points' 0 = Inr c"
       "Points_GetConnectedComponentId points' 1 = Inr c"
       "GetConnectedComponentId ?sp 0 points' = Inr c"
    by auto
  have upt: "[0..<3] = [0, 1, 2]"
    by (simp add: upt_rec)
  have computed: "DetectConnectedComponents ?sp example_points
       = Inr (example_points\<lparr>mConnectedComponentIdBuffer := [0, 0, 2]\<rparr>)"
    by (simp add: DetectConnectedComponents_def example_springs_def example_points_def upt
        Buffer_get_def Relabel_def)
  show ?thesis
    using count live dead computed run c by blast
qed

text \<open>
  The ids that the analysis gives are those of the connected components: two points that
  a path of live springs connects get the same id, and two points with the same id are
  connected by a path of live springs.
\<close>

lemma Relabel_nth:
  "p < length ids \<Longrightarrow> Relabel old new ids ! p = (if ids ! p = old then new else ids ! p)"
  by (simp add: Relabel_def)

lemma JoinSprings_only_connected:
  assumes "JoinSprings es ids = Inr ids'"
    and "\<And>d e. (d, e) \<in> set es \<Longrightarrow> \<not> d \<Longrightarrow> Connected springs (PointAIndex e) (PointBIndex e)"
    and "\<And>p q. p < length ids \<Longrightarrow> q < length ids \<Longrightarrow> ids ! p = ids ! q \<Longrightarrow> Connected springs p q"
    and "p < length ids" and "q < length ids" and "ids' ! p = ids' ! q"
  shows "Connected springs p q"
  using assms
proof (induction es arbitrary: ids)
  case Nil
  then show ?case by simp
next
  case (Cons x es)
  obtain d e where x: "x = (d, e)" by (cases x)
  have edges: "Connected springs (PointAIndex e') (PointBIndex e')" if "(d', e') \<in> set es" "\<not> d'" for d' e'
    using Cons.prems(2) [of d' e'] that by simp
  show ?case
  proof (cases d)
    case True
    with Cons.prems(1) x have run: "JoinSprings es ids = Inr ids'" by simp
    show ?thesis
      by (rule Cons.IH [OF run edges Cons.prems(3) Cons.prems(4) Cons.prems(5) Cons.prems(6)])
  next
    case False
    let ?a = "PointAIndex e" and ?b = "PointBIndex e"
    let ?ids = "Relabel (ids ! ?b) (ids ! ?a) ids"
    from Cons.prems(1) x False have ab: "?a < length ids" "?b < length ids"
      and run: "JoinSprings es ?ids = Inr ids'"
      by (auto simp: Buffer_get_def split: if_splits)
    have ab_conn: "Connected springs ?a ?b"
      using Cons.prems(2) [of d e] x False by simp
    have inv: "Connected springs u v"
      if u: "u < length ?ids" and v: "v < length ?ids" and eq: "?ids ! u = ?ids ! v" for u v
    proof -
      from u v have ul: "u < length ids" and vl: "v < length ids"
        by (simp_all add: Relabel_length)
      note old = Cons.prems(3)
      consider (both) "ids ! u = ids ! ?b" "ids ! v = ids ! ?b"
        | (left) "ids ! u = ids ! ?b" "ids ! v \<noteq> ids ! ?b"
        | (right) "ids ! u \<noteq> ids ! ?b" "ids ! v = ids ! ?b"
        | (none) "ids ! u \<noteq> ids ! ?b" "ids ! v \<noteq> ids ! ?b"
        by blast
      then show ?thesis
      proof cases
        case both
        then have "ids ! u = ids ! v" by simp
        then show ?thesis by (rule old [OF ul vl])
      next
        case left
        with eq ul vl have "ids ! ?a = ids ! v"
          by (simp add: Relabel_nth)
        then have av: "Connected springs ?a v" by (rule old [OF ab(1) vl])
        from left(1) have ub: "Connected springs u ?b" by (rule old [OF ul ab(2)])
        from ub Connected.reverse [OF ab_conn] have "Connected springs u ?a"
          by (rule Connected.path)
        then show ?thesis using av by (rule Connected.path)
      next
        case right
        with eq ul vl have "ids ! u = ids ! ?a"
          by (simp add: Relabel_nth)
        then have ua: "Connected springs u ?a" by (rule old [OF ul ab(1)])
        from right(2) [symmetric] have bv: "Connected springs ?b v" by (rule old [OF ab(2) vl])
        from ua ab_conn have "Connected springs u ?b"
          by (rule Connected.path)
        then show ?thesis using bv by (rule Connected.path)
      next
        case none
        with eq ul vl have "ids ! u = ids ! v"
          by (simp add: Relabel_nth)
        then show ?thesis by (rule old [OF ul vl])
      qed
    qed
    have pl: "p < length ?ids" "q < length ?ids"
      using Cons.prems(4,5) by (simp_all add: Relabel_length)
    show ?thesis
      by (rule Cons.IH [OF run edges inv pl Cons.prems(6)])
  qed
qed

lemma DetectConnectedComponents_only_joins_connected:
  assumes "DetectConnectedComponents sp points = Inr points'"
    and "Points_GetConnectedComponentId points' p = Inr c"
    and "Points_GetConnectedComponentId points' q = Inr c"
  shows "Connected (take (mElementCount sp) (zip (mIsDeletedBuffer sp) (mEndpointsBuffer sp))) p q"
proof -
  let ?es = "take (mElementCount sp) (zip (mIsDeletedBuffer sp) (mEndpointsBuffer sp))"
  let ?n = "length (mConnectedComponentIdBuffer points)"
  from assms(1) obtain ids where run: "JoinSprings ?es [0..<?n] = Inr ids"
    and pts: "points' = points\<lparr>mConnectedComponentIdBuffer := ids\<rparr>"
    by (auto simp: DetectConnectedComponents_def and_then_def split: sum.splits)
  have len: "length ids = ?n"
  proof -
    have "JoinSprings es i = Inr i' \<Longrightarrow> length i' = length i" for es i i'
    proof (induction es arbitrary: i)
      case Nil
      then show ?case by simp
    next
      case (Cons x es)
      obtain d e where "x = (d, e)" by (cases x)
      with Cons show ?case
        by (cases d) (auto simp: Buffer_get_def Relabel_length split: if_splits)
    qed
    from this [OF run] show ?thesis by simp
  qed
  from assms(2,3) pts len have pq: "p < length [0..<?n]" "q < length [0..<?n]" "ids ! p = ids ! q"
    by (simp_all add: Points_GetConnectedComponentId_def Buffer_get_Inr)
  have edges: "Connected ?es (PointAIndex e) (PointBIndex e)" if "(d, e) \<in> set ?es" "\<not> d" for d e
    using that Connected.spring [of e ?es] by simp
  have start: "Connected ?es u v" if "u < length [0..<?n]" "v < length [0..<?n]" "[0..<?n] ! u = [0..<?n] ! v" for u v
    using that Connected.same [of ?es u] by simp
  show ?thesis
    by (rule JoinSprings_only_connected [OF run edges start pq])
qed

lemma DetectConnectedComponents_joins_connected:
  assumes "\<forall>s < mElementCount sp. IsDeleted sp s = Inr False \<longrightarrow>
             (\<exists>a b. GetPointAIndex sp s = Inr a \<and> GetPointBIndex sp s = Inr b
                \<and> a < length (mConnectedComponentIdBuffer points)
                \<and> b < length (mConnectedComponentIdBuffer points))"
    and "DetectConnectedComponents sp points = Inr points'"
    and "Connected (take (mElementCount sp) (zip (mIsDeletedBuffer sp) (mEndpointsBuffer sp))) p q"
  shows "mConnectedComponentIdBuffer points' ! p = mConnectedComponentIdBuffer points' ! q"
proof -
  let ?es = "take (mElementCount sp) (zip (mIsDeletedBuffer sp) (mEndpointsBuffer sp))"
  let ?n = "length (mConnectedComponentIdBuffer points)"
  have valid: "PointAIndex e < length [0..<?n] \<and> PointBIndex e < length [0..<?n]"
    if "(deleted, e) \<in> set ?es" "\<not> deleted" for deleted e
  proof -
    from that(1) obtain i where i: "i < length ?es" "?es ! i = (deleted, e)"
      by (auto simp: in_set_conv_nth)
    then have r: "i < mElementCount sp" "i < length (mIsDeletedBuffer sp)"
      "i < length (mEndpointsBuffer sp)" "mIsDeletedBuffer sp ! i = deleted"
      "mEndpointsBuffer sp ! i = e"
      by simp_all
    with that(2) have "IsDeleted sp i = Inr False"
      by (simp add: IsDeleted_def Buffer_get_def)
    with assms(1) r(1) obtain a b where "GetPointAIndex sp i = Inr a" "GetPointBIndex sp i = Inr b"
      "a < ?n" "b < ?n"
      by blast
    with r show ?thesis
      by (simp add: GetPointAIndex_def GetPointBIndex_def Buffer_get_def)
  qed
  then have "\<forall>(deleted, e) \<in> set ?es. \<not> deleted \<longrightarrow>
      PointAIndex e < length [0..<?n] \<and> PointBIndex e < length [0..<?n]"
    by blast
  from JoinSprings_joins [OF this] obtain ids where
    run: "JoinSprings ?es [0..<?n] = Inr ids"
    and joined: "\<forall>(deleted, e) \<in> set ?es. \<not> deleted \<longrightarrow> ids ! PointAIndex e = ids ! PointBIndex e"
    by auto
  from run assms(2) have pts: "mConnectedComponentIdBuffer points' = ids"
    by (auto simp: DetectConnectedComponents_def)
  from assms(3) have "ids ! p = ids ! q"
  proof (induction rule: Connected.induct)
    case (same p)
    show ?case by simp
  next
    case (spring e)
    with joined show ?case by auto
  next
    case (reverse p q)
    then show ?case by simp
  next
    case (path p q r)
    then show ?case by simp
  qed
  with pts show ?thesis by simp
qed

section \<open>Reading a JSON file\<close>

lemma sublist_middle: "sublist ys (xs @ ys @ zs)"
  by (simp add: sublist_def) blast

text \<open>
  C7. \<^verbatim>\<open>ParseJSONFile\<close> either returns the value that the parser gives for the contents
  of the file, parsed without an error, or it throws a \<^verbatim>\<open>GameException\<close> whose message
  holds the name of the file, in one of two cases: the file cannot be opened (the message
  says so), or the parser reports an error (the message ends with that error). With
  contents that the parser rejects it does not return a value. The file is opened once and
  parsed at most once.
\<close>

theorem ParseJSONFile_returns_or_throws:
  "(let (calls, result) = ParseJSONFile picojson_parse fs filename in
     ((\<exists>contents jsonContent. fs filename = Some contents
         \<and> picojson_parse contents = (jsonContent, [])
         \<and> result = Inr jsonContent
         \<and> calls = [OpenFile filename, PicojsonParse contents])
      \<or> (\<exists>message. result = Inl (GameException message) \<and> sublist filename message
           \<and> ((fs filename = None
                  \<and> message = ''Cannot open file '' @ [CHR 0x22] @ filename @ [CHR 0x22]
                  \<and> calls = [OpenFile filename])
               \<or> (\<exists>contents. fs filename = Some contents
                     \<and> snd (picojson_parse contents) \<noteq> []
                     \<and> message = ''Error parsing JSON file '' @ [CHR 0x22] @ filename @ [CHR 0x22]
                                    @ '': '' @ snd (picojson_parse contents)
                     \<and> suffix (snd (picojson_parse contents)) message
                     \<and> calls = [OpenFile filename, PicojsonParse contents]))))
     \<and> (\<forall>contents. fs filename = Some contents \<and> snd (picojson_parse contents) \<noteq> []
            \<longrightarrow> (\<exists>message. result = Inl (GameException message))))"
proof (cases "fs filename")
  case None
  have "sublist filename (''Cannot open file '' @ [CHR 0x22] @ filename @ [CHR 0x22])"
    using sublist_middle [of filename "''Cannot open file '' @ [CHR 0x22]" "[CHR 0x22]"] by simp
  with None show ?thesis
    by (simp add: ParseJSONFile_def GetTextFileContents_def)
next
  case (Some contents)
  obtain jsonContent parseError where p: "picojson_parse contents = (jsonContent, parseError)"
    by (cases "picojson_parse contents")
  show ?thesis
  proof (cases "parseError = []")
    case True
    with Some p show ?thesis
      by (simp add: ParseJSONFile_def GetTextFileContents_def)
  next
    case False
    have "sublist filename (''Error parsing JSON file '' @ [CHR 0x22] @ filename @ [CHR 0x22]
                                    @ '': '' @ parseError)"
      using sublist_middle [of filename "''Error parsing JSON file '' @ [CHR 0x22]"
          "[CHR 0x22] @ '': '' @ parseError"] by simp
    moreover have "suffix parseError (''Error parsing JSON file '' @ [CHR 0x22] @ filename @ [CHR 0x22]
                                    @ '': '' @ parseError)"
      by (simp add: suffix_def)
    ultimately show ?thesis
      using Some p False by (simp add: ParseJSONFile_def GetTextFileContents_def)
  qed
qed

text \<open>The theorem at a file that parses, a file that does not, and a missing file.\<close>

theorem ParseJSONFile_returns_or_throws_witness:
  "ParseJSONFile example_parse example_files ''a.json''
     = ([OpenFile ''a.json'', PicojsonParse ''{}''], Inr 1)
   \<and> ParseJSONFile example_parse example_files ''b.json''
     = ([OpenFile ''b.json'', PicojsonParse ''{''],
        Inl (GameException (''Error parsing JSON file '' @ [CHR 0x22] @ ''b.json'' @ [CHR 0x22]
               @ '': syntax error'')))
   \<and> ParseJSONFile example_parse example_files ''c.json''
     = ([OpenFile ''c.json''],
        Inl (GameException (''Cannot open file '' @ [CHR 0x22] @ ''c.json'' @ [CHR 0x22])))"
proof -
  have fs: "example_files ''a.json'' = Some ''{}''" "example_files ''b.json'' = Some ''{''"
    "example_files ''c.json'' = None"
    by (simp_all add: example_files_def)
  have p: "example_parse ''{}'' = (1, [])" "example_parse ''{'' = (0, ''syntax error'')"
    by (simp_all add: example_parse_def)
  from ParseJSONFile_returns_or_throws [of example_parse example_files "''a.json''"]
  have a: "ParseJSONFile example_parse example_files ''a.json''
     = ([OpenFile ''a.json'', PicojsonParse ''{}''], Inr 1)"
    by (auto simp: fs p split: prod.splits)
  from ParseJSONFile_returns_or_throws [of example_parse example_files "''b.json''"]
  have b: "ParseJSONFile example_parse example_files ''b.json''
     = ([OpenFile ''b.json'', PicojsonParse ''{''],
        Inl (GameException (''Error parsing JSON file '' @ [CHR 0x22] @ ''b.json'' @ [CHR 0x22]
               @ '': syntax error'')))"
    by (auto simp: fs p split: prod.splits)
  from ParseJSONFile_returns_or_throws [of example_parse example_files "''c.json''"]
  have c: "ParseJSONFile example_parse example_files ''c.json''
     = ([OpenFile ''c.json''],
        Inl (GameException (''Cannot open file '' @ [CHR 0x22] @ ''c.json'' @ [CHR 0x22])))"
    by (auto simp: fs p split: prod.splits)
  from a b c show ?thesis by simp
qed

section \<open>Materials\<close>

text \<open>
  C8. A structural material is made of exactly a name, a strength, a mass, a stiffness, a
  render color, a hull flag and a sound type, and the sound types are the four values
  Cable, Glass, Metal and Wood; an electrical material is made of exactly a name, an
  element type and a self-powered flag, and the element types are the three values Lamp,
  Cable and Generator.
\<close>

theorem material_shapes:
  "(\<forall>m. m = StructuralMaterial_ctor (StructuralMaterial.Name m) (Strength m) (Mass m) (Stiffness m)
               (RenderColor m) (IsHull m) (MaterialSound m))
   \<and> StructuralMaterial.Name (StructuralMaterial_ctor name strength mass stiffness renderColor isHull sound) = name
   \<and> Strength (StructuralMaterial_ctor name strength mass stiffness renderColor isHull sound) = strength
   \<and> Mass (StructuralMaterial_ctor name strength mass stiffness renderColor isHull sound) = mass
   \<and> Stiffness (StructuralMaterial_ctor name strength mass stiffness renderColor isHull sound) = stiffness
   \<and> RenderColor (StructuralMaterial_ctor name strength mass stiffness renderColor isHull sound) = renderColor
   \<and> IsHull (StructuralMaterial_ctor name strength mass stiffness renderColor isHull sound) = isHull
   \<and> MaterialSound (StructuralMaterial_ctor name strength mass stiffness renderColor isHull sound) = sound
   \<and> (UNIV :: MaterialSoundType set) = {MaterialSoundType.Cable, Glass, Metal, Wood}
   \<and> distinct [MaterialSoundType.Cable, Glass, Metal, Wood]
   \<and> (\<forall>e. e = ElectricalMaterial_ctor (ElectricalMaterial.Name e) (ElectricalType e) (IsSelfPowered e))
   \<and> ElectricalMaterial.Name (ElectricalMaterial_ctor ename etype selfPowered) = ename
   \<and> ElectricalType (ElectricalMaterial_ctor ename etype selfPowered) = etype
   \<and> IsSelfPowered (ElectricalMaterial_ctor ename etype selfPowered) = selfPowered
   \<and> (UNIV :: ElectricalElementType set) = {Lamp, ElectricalElementType.Cable, Generator}
   \<and> distinct [Lamp, ElectricalElementType.Cable, Generator]"
proof -
  have s: "m = StructuralMaterial_ctor (StructuralMaterial.Name m) (Strength m) (Mass m) (Stiffness m)
               (RenderColor m) (IsHull m) (MaterialSound m)" for m
    by (cases m) (simp add: StructuralMaterial_ctor_def)
  have e: "e = ElectricalMaterial_ctor (ElectricalMaterial.Name e) (ElectricalType e) (IsSelfPowered e)" for e
    by (cases e) (simp add: ElectricalMaterial_ctor_def)
  have us: "(UNIV :: MaterialSoundType set) = {MaterialSoundType.Cable, Glass, Metal, Wood}"
  proof -
    have "x \<in> {MaterialSoundType.Cable, Glass, Metal, Wood}" for x
      by (cases x) simp_all
    then show ?thesis by blast
  qed
  have ue: "(UNIV :: ElectricalElementType set) = {Lamp, ElectricalElementType.Cable, Generator}"
  proof -
    have "x \<in> {Lamp, ElectricalElementType.Cable, Generator}" for x
      by (cases x) simp_all
    then show ?thesis by blast
  qed
  show ?thesis
    using s e us ue
    by (simp add: StructuralMaterial_ctor_def ElectricalMaterial_ctor_def)
qed

end
